theory Spec2Isabelle
  imports Complex_Main "HOL-Library.Multiset" "HOL-Library.Product_Lexorder" "HOL-Library.Option_ord"
begin

chapter \<open>pyscope: the CCD calibration and scheduling entry points\<close>

text \<open>
  The development embeds three Python sources of pyscope:
  \<^item> \<^verbatim>\<open>pyscope/telrun/sun_condition.py\<close> (class \<^verbatim>\<open>SunCondition\<close>),
  \<^item> \<^verbatim>\<open>pyscope/reduction/ccd_calib.py\<close> (function \<^verbatim>\<open>ccd_calib_cli\<close>),
  \<^item> \<^verbatim>\<open>pyscope/telrun/schedtel.py\<close> (function \<^verbatim>\<open>schedtel_cli\<close>).

  Every raise of the Python code is a value: a function that can raise returns
  \<open>py_error + 'a\<close> with the exception on the left. Calls into the file system and into
  the libraries (astropy, numpy, astroscrappy, astroplan, configparser) are fields of an
  environment record that the functions take as their first argument, so every theorem
  holds for every behaviour of those libraries. Logging calls are left out where they
  cannot raise; where the argument of a logging call raises, the raise is modelled.
\<close>

section \<open>Python exceptions and values\<close>

datatype py_error =
    IndexError
  | KeyError string
  | TypeError
  | ValueError
  | NameError string
  | UnboundLocalError string
  | AttributeError string
  | ZeroDivisionError
  | LibraryError string

type_synonym 'a res = "py_error + 'a"

definition rbind :: "'e + 'a \<Rightarrow> ('a \<Rightarrow> 'e + 'b) \<Rightarrow> 'e + 'b" where
  "rbind m f = (case m of Inl e \<Rightarrow> Inl e | Inr x \<Rightarrow> f x)"

text \<open>
  A computation that also performs observable actions returns the list of actions it
  performed, in order, next to its result; the actions performed before a raise are
  kept.
\<close>

type_synonym ('ev, 'a) traced = "'ev list \<times> 'a res"

definition tbind ::
  "'ev list \<times> ('e + 'a) \<Rightarrow> ('a \<Rightarrow> 'ev list \<times> ('e + 'b)) \<Rightarrow> 'ev list \<times> ('e + 'b)" where
  "tbind m f =
     (case m of
        (t, Inl e) \<Rightarrow> (t, Inl e)
      | (t, Inr x) \<Rightarrow> (case f x of (t', r) \<Rightarrow> (t @ t', r)))"

definition tlift :: "'e + 'a \<Rightarrow> 'ev list \<times> ('e + 'a)" where
  "tlift r = ([], r)"

definition temit :: "'ev \<Rightarrow> 'ev list \<times> ('e + unit)" where
  "temit ev = ([ev], Inr ())"

text \<open>The two Python value kinds the arithmetic of the sources is applied to.\<close>

datatype pyval = PyInt int | PyStr string

fun py_sub :: "pyval \<Rightarrow> pyval \<Rightarrow> pyval res" where
  "py_sub (PyInt a) (PyInt b) = Inr (PyInt (a - b))"
| "py_sub _ _ = Inl TypeError"

fun py_add :: "pyval \<Rightarrow> pyval \<Rightarrow> pyval res" where
  "py_add (PyInt a) (PyInt b) = Inr (PyInt (a + b))"
| "py_add (PyStr a) (PyStr b) = Inr (PyStr (a @ b))"
| "py_add _ _ = Inl TypeError"

text \<open>
  A Python sequence argument: a \<^verbatim>\<open>str\<close> or a list. Iterating a \<^verbatim>\<open>str\<close> yields its
  characters, each a \<^verbatim>\<open>str\<close> of length one.
\<close>

datatype pyseq = PStr string | PList "pyval list"

fun py_iter :: "pyseq \<Rightarrow> pyval list" where
  "py_iter (PStr s) = map (\<lambda>c. PyStr [c]) s"
| "py_iter (PList xs) = xs"

fun py_len :: "pyseq \<Rightarrow> nat" where
  "py_len (PStr s) = length s"
| "py_len (PList xs) = length xs"

section \<open>\<^verbatim>\<open>SunCondition\<close> (sun\_condition.py)\<close>

text \<open>
  \<^verbatim>\<open>__init__\<close> takes four bounds and its body is \<^verbatim>\<open>pass\<close>: the instance stores nothing.
  \<^verbatim>\<open>__call__(self, time=None, location=None, target=None)\<close> has the body \<^verbatim>\<open>pass\<close> as
  well, so it returns \<^verbatim>\<open>None\<close>. The value type holds \<^verbatim>\<open>None\<close> and the result the
  specification describes, a satisfied flag with a score.
\<close>

datatype sun_condition = SunConditionObject

definition SunCondition_init :: "rat \<Rightarrow> rat \<Rightarrow> rat \<Rightarrow> rat \<Rightarrow> sun_condition" where
  "SunCondition_init min_sep max_sep min_alt max_alt = SunConditionObject"

datatype condition_value = NoneValue | ConditionResult bool rat

definition SunCondition_call ::
  "sun_condition \<Rightarrow> 'time option \<Rightarrow> 'loc option \<Rightarrow> 'tgt option \<Rightarrow> condition_value res" where
  "SunCondition_call self time location target = Inr NoneValue"

text \<open>What the specification's contract asks of an evaluation.\<close>

fun is_condition_result :: "condition_value res \<Rightarrow> bool" where
  "is_condition_result (Inr (ConditionResult satisfied score)) = (0 \<le> score \<and> score \<le> 1)"
| "is_condition_result _ = False"

section \<open>\<^verbatim>\<open>ccd_calib_cli\<close> (ccd\_calib.py)\<close>

subsection \<open>FITS headers\<close>

text \<open>
  A header maps keywords to values. Exposure times are rationals here: the embedding does
  not model binary floating point, and no theorem below depends on a rounding.
\<close>

datatype hval = HStr string | HNum rat | HBool bool

type_synonym header = "string \<rightharpoonup> hval"

definition hdr_get :: "header \<Rightarrow> string \<Rightarrow> hval res" where
  "hdr_get hdr k = (case hdr k of None \<Rightarrow> Inl (KeyError k) | Some v \<Rightarrow> Inr v)"

text \<open>\<^verbatim>\<open>try: x = hdr[k1]  except KeyError: x = hdr[k2]\<close>\<close>

definition hdr_get2 :: "header \<Rightarrow> string \<Rightarrow> string \<Rightarrow> hval res" where
  "hdr_get2 hdr k1 k2 = (case hdr k1 of Some v \<Rightarrow> Inr v | None \<Rightarrow> hdr_get hdr k2)"

text \<open>\<^verbatim>\<open>try: x = hdr["FILTER"]  except KeyError: x = ""\<close>\<close>

definition hdr_filter :: "header \<Rightarrow> hval" where
  "hdr_filter hdr = (case hdr ''FILTER'' of Some v \<Rightarrow> v | None \<Rightarrow> HStr [])"

definition round_half_even :: "rat \<Rightarrow> int" where
  "round_half_even x =
     (let f = \<lfloor>x\<rfloor>; d = x - of_int f
      in if d < 1 / 2 then f else if 1 / 2 < d then f + 1 else if even f then f else f + 1)"

text \<open>
  \<^verbatim>\<open>round(v, 3)\<close>: a \<^verbatim>\<open>str\<close> has no \<^verbatim>\<open>__round__\<close>. A number of a header is a \<^verbatim>\<open>float\<close>, and
  \<open>HNum q\<close> holds the exact value \<open>q\<close> of that float; \<^verbatim>\<open>round\<close> works on this exact value, to
  the nearest multiple of one thousandth, the even one when \<open>q\<close> lies exactly between two.
  The literal \<^verbatim>\<open>0.0025\<close> is not such a value: the float it denotes lies above it, and
  rounds up. The result here is the exact multiple; the \<^verbatim>\<open>float\<close> that Python returns is the
  one nearest to it.
\<close>

fun py_round3 :: "hval \<Rightarrow> hval res" where
  "py_round3 (HNum q) = Inr (HNum (of_int (round_half_even (q * 1000)) / 1000))"
| "py_round3 (HBool b) = Inr (HNum (if b then 1 else 0))"
| "py_round3 (HStr s) = Inl TypeError"

text \<open>
  \<^verbatim>\<open>try: x = round(hdr["EXPTIME"], 3)  except KeyError: x = round(hdr["EXPOSURE"], 3)\<close>
\<close>

definition hdr_exptime_rounded :: "header \<Rightarrow> hval res" where
  "hdr_exptime_rounded hdr =
     (case hdr ''EXPTIME'' of
        Some v \<Rightarrow> py_round3 v
      | None \<Rightarrow> rbind (hdr_get hdr ''EXPOSURE'') py_round3)"

text \<open>\<^verbatim>\<open>v.replace(" ", "")\<close>: only a \<^verbatim>\<open>str\<close> has the method.\<close>

fun py_strip_spaces :: "hval \<Rightarrow> hval res" where
  "py_strip_spaces (HStr s) = Inr (HStr (filter (\<lambda>c. c \<noteq> CHR '' '') s))"
| "py_strip_spaces _ = Inl (AttributeError ''replace'')"

text \<open>\<^verbatim>\<open>a / b\<close> on two header numbers.\<close>

fun py_truediv :: "hval \<Rightarrow> hval \<Rightarrow> rat res" where
  "py_truediv (HNum a) (HNum b) = (if b = 0 then Inl ZeroDivisionError else Inr (a / b))"
| "py_truediv _ _ = Inl TypeError"

subsection \<open>Arguments, environment and loaded frames\<close>

record ccd_args =
  fnames :: "string list"
  dark_frame :: "string option"
  flat_frame :: "string option"
  bias_frame :: "string option"
  flat_dark_frame :: "string option"
  camera_type :: string
  astro_scrappy :: "int \<times> int"
  bad_columns :: pyseq
  in_place :: bool
  verbose :: bool
  pedestal :: int

text \<open>
  The environment: \<^verbatim>\<open>os.path\<close> and \<^verbatim>\<open>glob\<close>, \<^verbatim>\<open>astropy.io.fits\<close>, and the array
  operations of numpy and astroscrappy on images of type \<open>'img\<close> with columns of type
  \<open>'col\<close>. \<open>fits_open\<close> stands for \<^verbatim>\<open>fits.open(p)\<close> with the primary HDU's data converted
  by \<^verbatim>\<open>astype(np.float64)\<close> and its header.
\<close>

record ('img, 'col) ccd_env =
  isfile :: "string \<Rightarrow> bool"
  isdir :: "string \<Rightarrow> bool"
  glob :: "string \<Rightarrow> string list"
  fits_open :: "string \<Rightarrow> ('img \<times> header) res"
  fits_getdata :: "string \<Rightarrow> ('img \<times> header) res"
  np_subtract :: "'img \<Rightarrow> 'img \<Rightarrow> 'img res"
  np_scale :: "'img \<Rightarrow> rat \<Rightarrow> 'img"
  np_divide :: "'img \<Rightarrow> 'img \<Rightarrow> 'img res"
  np_mean_normalise :: "'img \<Rightarrow> 'img"
  np_floor :: "'img \<Rightarrow> 'img"
  np_add_scalar :: "'img \<Rightarrow> int \<Rightarrow> 'img"
  detect_cosmics :: "'img \<Rightarrow> int \<Rightarrow> int \<Rightarrow> 'img res"
  np_column :: "'img \<Rightarrow> int \<Rightarrow> 'col res"
  np_column_mean :: "'col \<Rightarrow> 'col \<Rightarrow> 'col"
  np_set_column :: "'img \<Rightarrow> int \<Rightarrow> 'col \<Rightarrow> 'img res"
  fits_writeto :: "string \<Rightarrow> 'img \<Rightarrow> header \<Rightarrow> unit res"

text \<open>
  The local variables a loaded calibration frame binds (for the bias frame:
  \<^verbatim>\<open>bias\<close>, \<^verbatim>\<open>bias_readout_mode\<close>, \<^verbatim>\<open>bias_exptime\<close>, \<^verbatim>\<open>bias_xbin\<close>, \<^verbatim>\<open>bias_ybin\<close>). A frame
  that was not loaded leaves them unbound, which is \<open>None\<close> in \<open>calib_frames\<close>.
\<close>

record 'img frame =
  fr_data :: 'img
  fr_filter :: hval
  fr_readout_mode :: hval
  fr_exptime :: hval
  fr_xbin :: hval
  fr_ybin :: hval

record 'img calib_frames =
  bias :: "'img frame option"
  flat_dark :: "'img frame option"
  dark :: "'img frame option"
  flat :: "'img frame option"

datatype 'img ccd_event =
    Opened string
  | GotData string
  | WroteTo string 'img header

text \<open>
  The header reads after \<^verbatim>\<open>fits.open\<close>. The flat-dark frame's exposure time is read
  without \<^verbatim>\<open>round\<close>; the bias and dark frames have no \<^verbatim>\<open>FILTER\<close> read.
\<close>

definition read_frame_header :: "bool \<Rightarrow> 'img \<Rightarrow> header \<Rightarrow> 'img frame res" where
  "read_frame_header rounded data hdr =
     rbind (hdr_get2 hdr ''READOUTM'' ''READOUT'') (\<lambda>readout_mode.
     rbind (if rounded then hdr_exptime_rounded hdr else hdr_get2 hdr ''EXPTIME'' ''EXPOSURE'') (\<lambda>exptime.
     rbind (hdr_get2 hdr ''XBINNING'' ''XBIN'') (\<lambda>xbin.
     rbind (hdr_get2 hdr ''YBINNING'' ''YBIN'') (\<lambda>ybin.
       Inr \<lparr>fr_data = data, fr_filter = hdr_filter hdr, fr_readout_mode = readout_mode,
            fr_exptime = exptime, fr_xbin = xbin, fr_ybin = ybin\<rparr>))))"

text \<open>\<^verbatim>\<open>if path is not None: with fits.open(path) as hdul: ...\<close>\<close>

definition load_frame ::
  "('img, 'col) ccd_env \<Rightarrow> bool \<Rightarrow> string option \<Rightarrow> ('img ccd_event, 'img frame option) traced" where
  "load_frame env rounded path =
     (case path of
        None \<Rightarrow> tlift (Inr None)
      | Some p \<Rightarrow>
          tbind (temit (Opened p)) (\<lambda>_.
          tlift (rbind (fits_open env p) (\<lambda>(data, hdr).
                 rbind (read_frame_header rounded data hdr) (\<lambda>fr. Inr (Some fr))))))"

text \<open>Lines 115 to 255: the bias or flat-dark frame, then the dark frame, then the flat.\<close>

definition load_calibration_frames ::
  "('img, 'col) ccd_env \<Rightarrow> ccd_args \<Rightarrow> ('img ccd_event, 'img calib_frames) traced" where
  "load_calibration_frames env args =
     tbind (if camera_type args = ''ccd'' then load_frame env True (bias_frame args)
            else tlift (Inr None)) (\<lambda>b.
     tbind (if camera_type args \<noteq> ''ccd'' \<and> camera_type args = ''cmos''
            then load_frame env False (flat_dark_frame args)
            else tlift (Inr None)) (\<lambda>fd.
     tbind (load_frame env True (dark_frame args)) (\<lambda>d.
     tbind (load_frame env True (flat_frame args)) (\<lambda>f.
       tlift (Inr \<lparr>bias = b, flat_dark = fd, dark = d, flat = f\<rparr>)))))"

subsection \<open>Calibrating one image\<close>

text \<open>Reading a local variable that no assignment has bound.\<close>

definition local_var :: "string \<Rightarrow> 'a option \<Rightarrow> 'a res" where
  "local_var name v = (case v of None \<Rightarrow> Inl (UnboundLocalError name) | Some x \<Rightarrow> Inr x)"

text \<open>Lines 275 to 304: \<^verbatim>\<open>fits.getdata\<close> and the reads of the image's header.\<close>

definition read_image_header :: "'img \<Rightarrow> header \<Rightarrow> 'img frame res" where
  "read_image_header img hdr =
     rbind (case hdr ''READOUTM'' of
              Some v \<Rightarrow> py_strip_spaces v
            | None \<Rightarrow> rbind (hdr_get hdr ''READOUT'') py_strip_spaces) (\<lambda>readout_mode.
     rbind (hdr_exptime_rounded hdr) (\<lambda>exptime.
     rbind (hdr_get2 hdr ''XBINNING'' ''XBIN'') (\<lambda>xbin.
     rbind (hdr_get2 hdr ''YBINNING'' ''YBIN'') (\<lambda>ybin.
       Inr \<lparr>fr_data = img, fr_filter = hdr_filter hdr, fr_readout_mode = readout_mode,
            fr_exptime = exptime, fr_xbin = xbin, fr_ybin = ybin\<rparr>))))"

text \<open>
  Lines 311 to 356 compare the image's header with the dark and the flat frame's and
  only log; what they can do to the run is raise on \<^verbatim>\<open>dark_readout_mode\<close>,
  \<^verbatim>\<open>flat_readout_mode\<close> or \<^verbatim>\<open>flat_dark_exptime\<close> when the frame was not loaded.
\<close>

definition compare_headers :: "ccd_args \<Rightarrow> 'img calib_frames \<Rightarrow> unit res" where
  "compare_headers args cal =
     rbind (local_var ''dark_readout_mode'' (dark cal)) (\<lambda>_.
     rbind (local_var ''flat_readout_mode'' (flat cal)) (\<lambda>_.
       if camera_type args = ''cmos''
       then rbind (local_var ''flat_dark_exptime'' (flat_dark cal)) (\<lambda>_. Inr ())
       else Inr ()))"

text \<open>\<^verbatim>\<open>x -= (dark - bias) * (num / dark_exptime)\<close>, operands read from left to right.\<close>

definition subtract_scaled_dark ::
  "('img, 'col) ccd_env \<Rightarrow> 'img calib_frames \<Rightarrow> 'img \<Rightarrow> hval \<Rightarrow> 'img res" where
  "subtract_scaled_dark env cal x num =
     rbind (local_var ''dark'' (dark cal)) (\<lambda>d.
     rbind (local_var ''bias'' (bias cal)) (\<lambda>b.
     rbind (np_subtract env (fr_data d) (fr_data b)) (\<lambda>db.
     rbind (py_truediv num (fr_exptime d)) (\<lambda>r.
       np_subtract env x (np_scale env db r)))))"

text \<open>Lines 369 to 395: bias and dark subtraction from the image.\<close>

definition subtract_bias_dark ::
  "('img, 'col) ccd_env \<Rightarrow> ccd_args \<Rightarrow> 'img calib_frames \<Rightarrow> 'img frame \<Rightarrow> 'img res" where
  "subtract_bias_dark env args cal im =
     (if camera_type args = ''ccd'' then
        rbind (if bias_frame args \<noteq> None
               then rbind (local_var ''bias'' (bias cal)) (\<lambda>b. np_subtract env (fr_data im) (fr_data b))
               else Inr (fr_data im)) (\<lambda>x.
          if dark_frame args \<noteq> None then subtract_scaled_dark env cal x (fr_exptime im)
          else Inr x)
      else if camera_type args = ''cmos'' then
        (if flat_dark_frame args \<noteq> None
         then rbind (local_var ''dark'' (dark cal)) (\<lambda>d. np_subtract env (fr_data im) (fr_data d))
         else Inr (fr_data im))
      else Inr (fr_data im))"

text \<open>
  Lines 397 to 432: the flat is prepared in place (\<^verbatim>\<open>flat -= ...\<close>,
  \<^verbatim>\<open>np.divide(flat, flat_mean, out=flat)\<close>), so the array the next image sees is the one
  this image left; the function returns it with the divided image.
\<close>

definition prepare_flat ::
  "('img, 'col) ccd_env \<Rightarrow> ccd_args \<Rightarrow> 'img calib_frames \<Rightarrow> 'img frame \<Rightarrow> 'img res" where
  "prepare_flat env args cal fl =
     rbind
       (if camera_type args = ''ccd'' then
          rbind (if bias_frame args \<noteq> None
                 then rbind (local_var ''bias'' (bias cal)) (\<lambda>b. np_subtract env (fr_data fl) (fr_data b))
                 else Inr (fr_data fl)) (\<lambda>x.
            if dark_frame args \<noteq> None then subtract_scaled_dark env cal x (fr_exptime fl)
            else Inr x)
        else if camera_type args = ''cmos'' then
          (if flat_dark_frame args \<noteq> None
           then rbind (local_var ''flat_dark'' (flat_dark cal)) (\<lambda>fd. np_subtract env (fr_data fl) (fr_data fd))
           else Inr (fr_data fl))
        else Inr (fr_data fl))
       (\<lambda>x. Inr (np_mean_normalise env x))"

definition apply_flat ::
  "('img, 'col) ccd_env \<Rightarrow> ccd_args \<Rightarrow> 'img calib_frames \<Rightarrow> 'img \<Rightarrow> ('img calib_frames \<times> 'img) res" where
  "apply_flat env args cal x =
     (if flat_frame args \<noteq> None then
        rbind (local_var ''flat'' (flat cal)) (\<lambda>fl.
        rbind (prepare_flat env args cal fl) (\<lambda>fl'.
        rbind (np_divide env x fl') (\<lambda>y.
          Inr (cal\<lparr>flat := Some (fl\<lparr>fr_data := fl'\<rparr>)\<rparr>, y))))
      else Inr (cal, x))"

text \<open>
  Lines 467 to 472:
  \<^verbatim>\<open>for badcol in bad_columns:
      cal_image[:, badcol] = (cal_image[:, badcol - 1] + cal_image[:, badcol + 1]) / 2\<close>
  The right-hand side is evaluated first, \<^verbatim>\<open>badcol - 1\<close> before anything else. An array
  index that is a \<^verbatim>\<open>str\<close> is an \<^verbatim>\<open>IndexError\<close> of numpy.
\<close>

fun np_index :: "pyval \<Rightarrow> int res" where
  "np_index (PyInt k) = Inr k"
| "np_index (PyStr s) = Inl IndexError"

definition fix_column :: "('img, 'col) ccd_env \<Rightarrow> pyval \<Rightarrow> 'img \<Rightarrow> 'img res" where
  "fix_column env badcol cal_image =
     rbind (py_sub badcol (PyInt 1)) (\<lambda>l.
     rbind (rbind (np_index l) (np_column env cal_image)) (\<lambda>left.
     rbind (py_add badcol (PyInt 1)) (\<lambda>r.
     rbind (rbind (np_index r) (np_column env cal_image)) (\<lambda>right.
     rbind (np_index badcol) (\<lambda>k.
       np_set_column env cal_image k (np_column_mean env left right))))))"

fun fix_columns :: "('img, 'col) ccd_env \<Rightarrow> pyval list \<Rightarrow> 'img \<Rightarrow> 'img res" where
  "fix_columns env [] cal_image = Inr cal_image"
| "fix_columns env (badcol # rest) cal_image =
     rbind (fix_column env badcol cal_image) (fix_columns env rest)"

definition fix_bad_columns :: "('img, 'col) ccd_env \<Rightarrow> pyseq \<Rightarrow> 'img \<Rightarrow> 'img res" where
  "fix_bad_columns env bad cal_image =
     (if 0 < py_len bad then fix_columns env (py_iter bad) cal_image else Inr cal_image)"

text \<open>
  \<^verbatim>\<open>fname.split(".")[:-1][0] + "_cal.fts"\<close>: the text before the first dot; without a dot
  the slice is empty and \<^verbatim>\<open>[0]\<close> raises.
\<close>

definition cal_name :: "string \<Rightarrow> string res" where
  "cal_name fname =
     (if CHR ''.'' \<in> set fname
      then Inr (takeWhile (\<lambda>c. c \<noteq> CHR ''.'') fname @ ''_cal.fts'')
      else Inl IndexError)"

text \<open>Lines 274 to 466: everything up to the bad-column loop.\<close>

definition calibrate_image ::
  "('img, 'col) ccd_env \<Rightarrow> ccd_args \<Rightarrow> 'img calib_frames \<Rightarrow> string \<Rightarrow>
     ('img ccd_event, 'img calib_frames \<times> 'img \<times> header) traced" where
  "calibrate_image env args cal fname =
     tbind (temit (GotData fname)) (\<lambda>_.
     tlift (
       rbind (fits_getdata env fname) (\<lambda>(img, hdr).
       rbind (read_image_header img hdr) (\<lambda>im.
       rbind (compare_headers args cal) (\<lambda>_.
       rbind (subtract_bias_dark env args cal im) (\<lambda>x.
       rbind (apply_flat env args cal x) (\<lambda>(cal', y).
       rbind (Inr (np_add_scalar env (np_floor env y) (pedestal args))) (\<lambda>z.
       rbind (if 0 < fst (astro_scrappy args)
              then detect_cosmics env z (fst (astro_scrappy args)) (snd (astro_scrappy args))
              else Inr z) (\<lambda>w.
         Inr (cal', w, hdr(''PEDESTAL'' \<mapsto> HNum (of_int (pedestal args)))))))))))))"

text \<open>Lines 467 to 492: the bad columns, the \<^verbatim>\<open>CALSTAT\<close> card and the write.\<close>

definition write_calibrated ::
  "('img, 'col) ccd_env \<Rightarrow> ccd_args \<Rightarrow> string \<Rightarrow> 'img \<Rightarrow> header \<Rightarrow> ('img ccd_event, unit) traced" where
  "write_calibrated env args fname cal_image hdr =
     tbind (tlift (if in_place args then Inr fname else cal_name fname)) (\<lambda>out.
     tbind (temit (WroteTo out cal_image hdr)) (\<lambda>_.
       tlift (fits_writeto env out cal_image hdr)))"

definition calibrate_one ::
  "('img, 'col) ccd_env \<Rightarrow> ccd_args \<Rightarrow> 'img calib_frames \<Rightarrow> string \<Rightarrow>
     ('img ccd_event, 'img calib_frames) traced" where
  "calibrate_one env args cal fname =
     tbind (calibrate_image env args cal fname) (\<lambda>(cal', cal_image, hdr).
     tbind (tlift (fix_bad_columns env (bad_columns args) cal_image)) (\<lambda>fixed.
     tbind (write_calibrated env args fname fixed (hdr(''CALSTAT'' \<mapsto> HBool True))) (\<lambda>_.
       tlift (Inr cal'))))"

text \<open>\<^verbatim>\<open>for fname in fnames:\<close> with the flat carried from one image to the next.\<close>

fun calibrate_all ::
  "('img, 'col) ccd_env \<Rightarrow> ccd_args \<Rightarrow> 'img calib_frames \<Rightarrow> string list \<Rightarrow>
     ('img ccd_event, unit) traced" where
  "calibrate_all env args cal [] = tlift (Inr ())"
| "calibrate_all env args cal (fname # rest) =
     tbind (calibrate_one env args cal fname) (\<lambda>cal'. calibrate_all env args cal' rest)"

subsection \<open>The function\<close>

text \<open>
  Line 110, \<^verbatim>\<open>fnames = fnames[0]\<close>, and lines 259 to 268: a file is looped over alone, a
  directory is replaced by its \<^verbatim>\<open>*.fts\<close>, \<^verbatim>\<open>*.fits\<close> and \<^verbatim>\<open>*.fit\<close> entries, and
  anything else is only logged, which leaves \<^verbatim>\<open>fnames\<close> a \<^verbatim>\<open>str\<close>: the loop then runs over
  its characters.
\<close>

definition first_fname :: "string list \<Rightarrow> string res" where
  "first_fname fs = (case fs of [] \<Rightarrow> Inl IndexError | f # _ \<Rightarrow> Inr f)"

definition image_paths :: "('img, 'col) ccd_env \<Rightarrow> string \<Rightarrow> string list" where
  "image_paths env f =
     (if isfile env f then [f]
      else if isdir env f then glob env (f @ ''/*.fts'') @ glob env (f @ ''/*.fits'') @ glob env (f @ ''/*.fit'')
      else map (\<lambda>c. [c]) f)"

definition ccd_calib_cli :: "('img, 'col) ccd_env \<Rightarrow> ccd_args \<Rightarrow> ('img ccd_event, unit) traced" where
  "ccd_calib_cli env args =
     tbind (tlift (first_fname (fnames args))) (\<lambda>f.
     tbind (load_calibration_frames env args) (\<lambda>cal.
       calibrate_all env args cal (image_paths env f)))"

subsection \<open>Reading a trace\<close>

fun got_data_paths :: "'img ccd_event list \<Rightarrow> string list" where
  "got_data_paths [] = []"
| "got_data_paths (GotData p # evs) = p # got_data_paths evs"
| "got_data_paths (_ # evs) = got_data_paths evs"

fun wrote_paths :: "'img ccd_event list \<Rightarrow> string list" where
  "wrote_paths [] = []"
| "wrote_paths (WroteTo p x h # evs) = p # wrote_paths evs"
| "wrote_paths (_ # evs) = wrote_paths evs"

subsection \<open>A concrete environment\<close>

text \<open>
  Images are integer matrices (lists of rows), the file system holds one image
  \<^verbatim>\<open>m51.fts\<close> and three calibration frames, and column indexing follows numpy: a negative
  index counts from the right, an index outside the row raises.
\<close>

definition demo_header :: header where
  "demo_header = [''READOUTM'' \<mapsto> HStr ''Normal'', ''EXPTIME'' \<mapsto> HNum 10,
                  ''XBINNING'' \<mapsto> HNum 1, ''YBINNING'' \<mapsto> HNum 1]"

definition demo_width :: "int list list \<Rightarrow> int" where
  "demo_width m = (case m of [] \<Rightarrow> 0 | r # _ \<Rightarrow> int (length r))"

definition demo_column :: "int list list \<Rightarrow> int \<Rightarrow> int list res" where
  "demo_column m k =
     (let n = demo_width m; j = (if k < 0 then k + n else k)
      in if 0 \<le> j \<and> j < n then Inr (map (\<lambda>r. r ! nat j) m) else Inl IndexError)"

definition demo_set_column :: "int list list \<Rightarrow> int \<Rightarrow> int list \<Rightarrow> int list list res" where
  "demo_set_column m k col =
     (let n = demo_width m; j = (if k < 0 then k + n else k)
      in if 0 \<le> j \<and> j < n then Inr (map2 (\<lambda>r v. r[nat j := v]) m col) else Inl IndexError)"

definition demo_ccd_env :: "(int list list, int list) ccd_env" where
  "demo_ccd_env =
     \<lparr>isfile = (\<lambda>p. p = ''m51.fts''),
      isdir = (\<lambda>p. False),
      glob = (\<lambda>p. []),
      fits_open = (\<lambda>p. if p = ''flat.fts'' then Inr ([[2, 2, 2]], demo_header)
                        else Inr ([[0, 0, 0]], demo_header)),
      fits_getdata = (\<lambda>p. Inr ([[100, 900, 104]], demo_header)),
      np_subtract = (\<lambda>a b. Inr (map2 (map2 (\<lambda>x y. x - y)) a b)),
      np_scale = (\<lambda>a r. map (map (\<lambda>x. \<lfloor>of_int x * r\<rfloor>)) a),
      np_divide = (\<lambda>a b. Inr (map2 (map2 (\<lambda>x y. x div y)) a b)),
      np_mean_normalise = (\<lambda>a. map (map (\<lambda>x. 1)) a),
      np_floor = (\<lambda>a. a),
      np_add_scalar = (\<lambda>a k. map (map (\<lambda>x. x + k)) a),
      detect_cosmics = (\<lambda>a niter readnoise. Inr a),
      np_column = demo_column,
      np_column_mean = map2 (\<lambda>x y. (x + y) div 2),
      np_set_column = demo_set_column,
      fits_writeto = (\<lambda>p a h. Inr ())\<rparr>"

definition demo_ccd_args :: ccd_args where
  "demo_ccd_args =
     \<lparr>fnames = [''m51.fts'', ''m52.fts''],
      dark_frame = Some ''dark.fts'',
      flat_frame = Some ''flat.fts'',
      bias_frame = Some ''bias.fts'',
      flat_dark_frame = None,
      camera_type = ''ccd'',
      astro_scrappy = (1, 3),
      bad_columns = PStr ''1,2'',
      in_place = False,
      verbose = False,
      pedestal = 1000\<rparr>"

section \<open>\<^verbatim>\<open>schedtel_cli\<close> (schedtel.py)\<close>

subsection \<open>Leaving the function\<close>

text \<open>
  \<^verbatim>\<open>schedtel_cli\<close> is left in three ways: by an exception, by one of its bare \<^verbatim>\<open>return\<close>
  statements after a logged error (the call returns \<^verbatim>\<open>None\<close>), or by one of the
  \<^verbatim>\<open>return\<close> statements at its end. The first two stop the run early and stand on the
  left, so that \<open>rbind\<close> and \<open>tbind\<close> pass them on.
\<close>

datatype stop = Raised py_error | Returned_None

type_synonym 'a step = "stop + 'a"

definition raising :: "'a res \<Rightarrow> 'a step" where
  "raising r = (case r of Inl e \<Rightarrow> Inl (Raised e) | Inr x \<Rightarrow> Inr x)"

subsection \<open>Names\<close>

text \<open>
  A name that the function body never assigns is looked up in the module's namespace and
  then among the builtins; a name found in neither raises \<^verbatim>\<open>NameError\<close>. The module's
  namespace holds what the \<^verbatim>\<open>import\<close> statements of lines 1 to 24, the assignment of
  line 26, the three \<^verbatim>\<open>def\<close> statements and the assignments of lines 830 to 832 bind.
\<close>

datatype global_value = Module string | Callable string | Instance string

definition schedtel_module_globals :: "(string \<times> global_value) list" where
  "schedtel_module_globals =
     [(''configparser'', Module ''configparser''),
      (''datetime'', Module ''datetime''),
      (''json'', Module ''json''),
      (''logging'', Module ''logging''),
      (''os'', Module ''os''),
      (''shlex'', Module ''shlex''),
      (''astroplan'', Module ''astroplan''),
      (''click'', Module ''click''),
      (''ccm'', Module ''cmcrameri''),
      (''mdates'', Module ''matplotlib.dates''),
      (''plt'', Module ''matplotlib.pyplot''),
      (''pytz'', Module ''pytz''),
      (''smplotlib'', Module ''smplotlib''),
      (''timezonefinder'', Module ''timezonefinder''),
      (''coord'', Module ''astropy.coordinates''),
      (''astrotime'', Module ''astropy.time''),
      (''u'', Module ''astropy.units''),
      (''mpc'', Module ''astroquery.mpc''),
      (''ticker'', Module ''matplotlib.ticker''),
      (''utils'', Module ''pyscope.utils''),
      (''Observatory'', Callable ''pyscope.observatory.Observatory''),
      (''sch'', Module ''pyscope.telrun.sch''),
      (''validate_ob'', Callable ''pyscope.telrun.validate_ob''),
      (''logger'', Instance ''logging.Logger''),
      (''schedtel_cli'', Callable ''schedtel_cli''),
      (''plot_schedule_gantt_cli'', Callable ''plot_schedule_gantt_cli''),
      (''plot_schedule_sky_cli'', Callable ''plot_schedule_sky_cli''),
      (''schedtel'', Callable ''schedtel_cli.callback''),
      (''plot_schedule_gantt'', Callable ''plot_schedule_gantt_cli.callback''),
      (''plot_schedule_sky'', Callable ''plot_schedule_sky_cli.callback'')]"

text \<open>The builtins the module's functions use.\<close>

definition python_builtins :: "string list" where
  "python_builtins =
     [''type'', ''list'', ''tuple'', ''str'', ''int'', ''len'', ''range'', ''open'', ''getattr'',
      ''Exception'', ''TypeError'']"

type_synonym namespace = "string \<rightharpoonup> global_value"

definition schedtel_namespace :: namespace where
  "schedtel_namespace n =
     (case map_of schedtel_module_globals n of
        Some v \<Rightarrow> Some v
      | None \<Rightarrow> if n \<in> set python_builtins then Some (Callable n) else None)"

definition load_global :: "namespace \<Rightarrow> string \<Rightarrow> global_value res" where
  "load_global ns n = (case ns n of None \<Rightarrow> Inl (NameError n) | Some v \<Rightarrow> Inr v)"

text \<open>The names of a statement, looked up in the order the statement evaluates them.\<close>

fun resolve :: "namespace \<Rightarrow> string list \<Rightarrow> unit res" where
  "resolve ns [] = Inr ()"
| "resolve ns (n # rest) = rbind (load_global ns n) (\<lambda>_. resolve ns rest)"

subsection \<open>Arguments\<close>

text \<open>
  An object of a catalog is an \<^verbatim>\<open>astroplan.ObservingBlock\<close> or something else. A group is
  a Python list or tuple of objects: what \<^verbatim>\<open>sch.read\<close> returns for one file, or one
  element of a catalog given as a list. \<^verbatim>\<open>ObservingBlock\<close> defines no \<^verbatim>\<open>__eq__\<close>, so two
  blocks are equal only when they are the same object: \<open>ob_id\<close> is the identity of the
  object (what \<^verbatim>\<open>id\<close> gives), and two blocks with the same attributes are two values.
\<close>

record observing_block =
  ob_id :: nat
  ob_target :: string
  ob_ra :: rat
  ob_dec :: rat
  ob_duration :: rat
  ob_priority :: rat
  ob_configuration :: "(string \<times> rat) list"

datatype pyobject = ObservingBlock observing_block | NotABlock string

record block_group =
  is_tuple :: bool
  items :: "pyobject list"

datatype catalog_entry = Sequence block_group | Single pyobject

datatype catalog_arg = CatalogPath string | CatalogSeq "catalog_entry list" | CatalogOther

text \<open>
  What lines 326 to 333 (or the attribute reads of lines 340 to 347 and 355 to 360)
  bind.
\<close>

record site =
  obs_long :: rat
  obs_lat :: rat
  obs_height :: rat
  slew_rate :: rat
  instrument_reconfiguration_times :: string
  instrument_name :: string

text \<open>
  The \<^verbatim>\<open>observatory\<close> argument: a path, a pyscope \<^verbatim>\<open>Observatory\<close>, an
  \<^verbatim>\<open>astroplan.Observer\<close>, or an object of another type. The two objects are given by what
  the attribute reads of the function yield on them (an \<^verbatim>\<open>astroplan.Observer\<close> has no
  \<^verbatim>\<open>slew_rate\<close> of its own, for one; and the \<^verbatim>\<open>height\<close> of an astropy \<^verbatim>\<open>EarthLocation\<close> is a
  \<^verbatim>\<open>Quantity\<close>, which has no attribute \<^verbatim>\<open>m\<close>, so that on the objects these libraries build
  the reads of lines 342 and 357 raise \<^verbatim>\<open>AttributeError\<close>).
\<close>

datatype observatory_arg =
    ObservatoryPath string
  | ObservatoryObject "site res"
  | ObserverObject "site res"
  | ObservatoryOther

record sched_args =
  catalog :: "catalog_arg option"
  ignore_order :: bool
  date :: "string option"
  observatory :: "observatory_arg option"
  max_altitude :: rat
  elevation :: rat
  airmass :: rat
  moon_separation :: rat
  scheduler :: "string \<times> string"
  gap_time :: rat
  resolution :: rat
  filename :: "string option"
  telrun :: bool
  plot :: "int option"
  quiet :: bool
  verbose_count :: int

subsection \<open>The schedule and its table\<close>

text \<open>
  An \<^verbatim>\<open>astroplan.Schedule\<close> is a list of slots between its start and end time; a slot is
  unused (its block is \<^verbatim>\<open>None\<close>), or holds an observing block or a transition block. A
  table row is a dictionary from column names to cells.
\<close>

datatype slot_content = Unused | Observing observing_block | Transition "string list"

record slot =
  slot_start :: rat
  slot_end :: rat
  slot_block :: slot_content

record schedule =
  start_time :: rat
  end_time :: rat
  slots :: "slot list"

datatype cell = Text string | Number rat | Config "(string \<times> rat) list" | Names "string list"

type_synonym row = "(string \<times> cell) list"

type_synonym sched_table = "row list"

datatype constraint =
    AltitudeConstraint rat
  | AtNightConstraint rat
  | AirmassConstraint rat bool
  | MoonSeparationConstraint rat

record transitioner =
  tr_slew_rate :: rat
  tr_instrument_reconfig_times :: "string option"

record schedule_handler =
  sh_class :: string
  sh_constraints :: "constraint list"
  sh_observer :: site
  sh_transitioner :: transitioner
  sh_gap_time :: rat
  sh_time_resolution :: global_value

record ephemeris =
  eph_ra :: rat
  eph_dec :: rat
  eph_dra_cosdec :: rat
  eph_ddec :: rat

subsection \<open>Environment\<close>

text \<open>
  The operating system, the files, the clock and the libraries. \<open>os_path_isfile\<close> takes
  the \<^verbatim>\<open>catalog\<close> argument as it is, since line 245 calls \<^verbatim>\<open>os.path.isfile\<close> before it looks
  at the argument's type. \<open>validate_ob\<close> and \<open>sch_read\<close> are functions of pyscope whose
  source is not part of the embedded files. \<open>timezone_at\<close> is
  \<^verbatim>\<open>TimezoneFinder().timezone_at(lng=lon.deg, lat=lat.deg)\<close> on the values of the two names;
  \<open>astroplan_Observer\<close> is \<^verbatim>\<open>astroplan.Observer(location=...)\<close> of lines 334 and 348, given
  the longitude, latitude and height of the location (astropy refuses a latitude beyond
  90 degrees, for one); \<open>astroplan_Transitioner\<close> is the constructor call of line 373, given
  its positional argument and its keyword arguments by name;
  \<open>import_scheduler\<close> is lines 410 to 415 and yields the class with whether
  \<^verbatim>\<open>astroplan.Scheduler\<close> is among its bases; \<open>get_body\<close> takes the offset in minutes that
  the call adds to the start time; \<open>body_motion\<close> is the arithmetic of lines 480 to 489;
  \<open>draw_plot\<close> stands for the matplotlib calls of a plot.
\<close>

record sched_env =
  environ_get :: "string \<Rightarrow> string option"
  getcwd :: string
  os_path_isfile :: "catalog_arg \<Rightarrow> bool res"
  os_path_isdir :: "string \<Rightarrow> bool"
  read_lines :: "string \<Rightarrow> string list res"
  sch_read :: "string \<Rightarrow> block_group res"
  validate_ob :: "pyobject \<Rightarrow> pyobject res"
  cfg_getfloat :: "string \<Rightarrow> string \<Rightarrow> string \<Rightarrow> rat res"
  cfg_get :: "string \<Rightarrow> string \<Rightarrow> string \<Rightarrow> string res"
  json_loads :: "string \<Rightarrow> string res"
  astroplan_Observer :: "rat \<Rightarrow> rat \<Rightarrow> rat \<Rightarrow> unit res"
  astroplan_Transitioner :: "rat \<Rightarrow> (string \<times> string) list \<Rightarrow> transitioner res"
  timezone_at :: "global_value \<Rightarrow> global_value \<Rightarrow> string res"
  now :: "int \<times> int \<times> int"
  strptime :: "string \<Rightarrow> (int \<times> int \<times> int) res"
  noon :: "int \<times> int \<times> int \<Rightarrow> string \<Rightarrow> rat"
  import_scheduler :: "string \<Rightarrow> string \<Rightarrow> (string \<times> bool) res"
  run_scheduler :: "schedule_handler \<Rightarrow> pyobject list \<Rightarrow> schedule \<Rightarrow> schedule res"
  get_ephemeris :: "cell \<Rightarrow> cell \<Rightarrow> ephemeris res"
  get_body :: "cell \<Rightarrow> cell \<Rightarrow> rat \<Rightarrow> (rat \<times> rat) res"
  body_motion :: "rat \<times> rat \<Rightarrow> rat \<times> rat \<Rightarrow> rat \<times> rat"
  isot :: "cell \<Rightarrow> string res"
  table_write :: "string \<Rightarrow> sched_table \<Rightarrow> unit res"
  draw_plot :: "string \<Rightarrow> schedule \<Rightarrow> string res"

subsection \<open>Lines 202 to 300: logging level, catalog, validation\<close>

text \<open>
  The \<^verbatim>\<open>if\<close>/\<^verbatim>\<open>elif\<close> chain of lines 203 to 210 has no \<^verbatim>\<open>else\<close>: a negative \<^verbatim>\<open>verbose\<close>
  leaves \<^verbatim>\<open>level\<close> unbound for line 211.
\<close>

definition logging_level :: "sched_args \<Rightarrow> unit res" where
  "logging_level args =
     (if quiet args then Inr ()
      else if verbose_count args = 0 then Inr ()
      else if verbose_count args = 1 then Inr ()
      else if 2 \<le> verbose_count args then Inr ()
      else Inl (UnboundLocalError ''level''))"

text \<open>
  \<^verbatim>\<open>try: p = os.environ.get("OBSERVATORY_HOME") + tail  except: p = os.getcwd() + tail'\<close>:
  an unset variable gives \<^verbatim>\<open>None + str\<close>, a \<^verbatim>\<open>TypeError\<close> that the bare \<^verbatim>\<open>except\<close> catches.
\<close>

definition default_path :: "sched_env \<Rightarrow> string \<Rightarrow> string \<Rightarrow> string" where
  "default_path env home_tail cwd_tail =
     (case environ_get env ''OBSERVATORY_HOME'' of
        Some home \<Rightarrow> home @ home_tail
      | None \<Rightarrow> getcwd env @ cwd_tail)"

definition endswith :: "string \<Rightarrow> string \<Rightarrow> bool" where
  "endswith s suffix = (length suffix \<le> length s \<and> drop (length s - length suffix) s = suffix)"

text \<open>Lines 250 to 262: a missing file and a file that \<^verbatim>\<open>sch.read\<close> rejects are skipped.\<close>

fun read_sch_files :: "sched_env \<Rightarrow> string list \<Rightarrow> block_group list" where
  "read_sch_files env [] = []"
| "read_sch_files env (f # fs) =
     (if \<not> (case os_path_isfile env (CatalogPath f) of Inr b \<Rightarrow> b | Inl e \<Rightarrow> False)
      then read_sch_files env fs
      else case sch_read env f of
             Inl e \<Rightarrow> read_sch_files env fs
           | Inr g \<Rightarrow> g # read_sch_files env fs)"

text \<open>
  Lines 272 to 287. The inner loop of lines 274 to 279 only logs, and its \<^verbatim>\<open>continue\<close>
  continues that loop: line 280 appends the whole sequence, objects that are no
  \<^verbatim>\<open>ObservingBlock\<close> included.
\<close>

fun catalog_groups :: "catalog_entry list \<Rightarrow> block_group list" where
  "catalog_groups [] = []"
| "catalog_groups (Sequence g # es) = g # catalog_groups es"
| "catalog_groups (Single (ObservingBlock b) # es) =
     \<lparr>is_tuple = False, items = [ObservingBlock b]\<rparr> # catalog_groups es"
| "catalog_groups (Single (NotABlock x) # es) = catalog_groups es"

definition read_catalog :: "sched_env \<Rightarrow> catalog_arg \<Rightarrow> block_group list step" where
  "read_catalog env c =
     rbind (raising (os_path_isfile env c)) (\<lambda>is_file.
       if is_file then
         (case c of
            CatalogPath p \<Rightarrow>
              if endswith p ''.cat''
              then rbind (raising (read_lines env p)) (\<lambda>sch_files. Inr (read_sch_files env sch_files))
              else if endswith p ''.sch''
              then (case sch_read env p of Inl e \<Rightarrow> Inl Returned_None | Inr g \<Rightarrow> Inr [g])
              else Inr []
          | _ \<Rightarrow> Inl (Raised (AttributeError ''endswith'')))
       else
         (case c of
            CatalogSeq es \<Rightarrow> Inr (catalog_groups es)
          | _ \<Rightarrow> Inl Returned_None))"

text \<open>
  Lines 292 to 300:
  \<^verbatim>\<open>for b in block:
      try: b = validate_ob(b)
      except Exception as e: ...; block.remove(b)\<close>
  The \<^verbatim>\<open>for\<close> statement keeps an index into the list that \<^verbatim>\<open>block.remove\<close> shortens: after
  a removal the index moves on by one over the shortened list. \<^verbatim>\<open>remove\<close> deletes the
  first element equal to its argument, which for a block is the first occurrence of that
  very object (see \<open>ob_id\<close>). The value \<^verbatim>\<open>validate_ob\<close> returns is bound to the loop
  variable only; the list keeps the object it held.
\<close>

function validate_items :: "(pyobject \<Rightarrow> pyobject res) \<Rightarrow> nat \<Rightarrow> pyobject list \<Rightarrow> pyobject list" where
  "validate_items v i block =
     (if i < length block
      then (case v (block ! i) of
              Inr b \<Rightarrow> validate_items v (Suc i) block
            | Inl e \<Rightarrow> validate_items v (Suc i) (remove1 (block ! i) block))
      else block)"
  by pat_completeness auto
termination
  by (relation "measure (\<lambda>(v, i, block). length block - i)") (auto simp: length_remove1)

text \<open>A tuple has no \<^verbatim>\<open>remove\<close>: the first object that fails validation raises.\<close>

definition validate_group :: "sched_env \<Rightarrow> block_group \<Rightarrow> block_group res" where
  "validate_group env g =
     (if is_tuple g
      then (if list_all (\<lambda>b. case validate_ob env b of Inr b' \<Rightarrow> True | Inl e \<Rightarrow> False) (items g)
            then Inr g else Inl (AttributeError ''remove''))
      else Inr (g\<lparr>items := validate_items (validate_ob env) 0 (items g)\<rparr>))"

fun validate_blocks :: "sched_env \<Rightarrow> block_group list \<Rightarrow> block_group list res" where
  "validate_blocks env [] = Inr []"
| "validate_blocks env (g # gs) =
     rbind (validate_group env g) (\<lambda>g'.
     rbind (validate_blocks env gs) (\<lambda>gs'. Inr (g' # gs')))"

text \<open>Lines 302 to 306.\<close>

definition apply_ignore_order :: "bool \<Rightarrow> block_group list \<Rightarrow> block_group list" where
  "apply_ignore_order flag blocks =
     (if flag then [\<lparr>is_tuple = False, items = concat (map items blocks)\<rparr>] else blocks)"

subsection \<open>Lines 308 to 375: observatory, global constraints, transitioner\<close>

definition read_site_config :: "sched_env \<Rightarrow> string \<Rightarrow> site res" where
  "read_site_config env path =
     rbind (cfg_getfloat env path ''site'' ''longitude'') (\<lambda>lon.
     rbind (cfg_getfloat env path ''site'' ''latitude'') (\<lambda>lat.
     rbind (cfg_getfloat env path ''site'' ''elevation'') (\<lambda>height.
     rbind (cfg_getfloat env path ''scheduling'' ''slew_rate'') (\<lambda>rate.
     rbind (rbind (cfg_get env path ''scheduling'' ''instrument_reconfiguration_times'')
              (json_loads env)) (\<lambda>times.
     rbind (cfg_get env path ''site'' ''instrument_name'') (\<lambda>name.
       Inr \<lparr>obs_long = lon, obs_lat = lat, obs_height = height, slew_rate = rate,
            instrument_reconfiguration_times = times, instrument_name = name\<rparr>))))))"

text \<open>
  Lines 334 to 338 and line 348: the observer is built once the six values are read. An
  \<^verbatim>\<open>astroplan.Observer\<close> that is passed in is used as it is.
\<close>

definition make_observer :: "sched_env \<Rightarrow> site \<Rightarrow> site res" where
  "make_observer env s =
     rbind (astroplan_Observer env (obs_long s) (obs_lat s) (obs_height s)) (\<lambda>_. Inr s)"

definition parse_observatory :: "sched_env \<Rightarrow> observatory_arg option \<Rightarrow> site step" where
  "parse_observatory env obs =
     (case (case obs of
              None \<Rightarrow> ObservatoryPath
                        (default_path env ''/config/observatory.cfg'' ''/observatory.cfg'')
            | Some x \<Rightarrow> x) of
        ObserverObject attrs \<Rightarrow> raising attrs
      | ObservatoryPath path \<Rightarrow> raising (rbind (read_site_config env path) (make_observer env))
      | ObservatoryObject attrs \<Rightarrow> raising (rbind attrs (make_observer env))
      | ObservatoryOther \<Rightarrow> Inl Returned_None)"

text \<open>Lines 364 to 369.\<close>

definition global_constraints :: "sched_args \<Rightarrow> constraint list" where
  "global_constraints args =
     [AltitudeConstraint (elevation args),
      AtNightConstraint (max_altitude args),
      AirmassConstraint (airmass args) False,
      MoonSeparationConstraint (moon_separation args)]"

text \<open>
  Lines 371 to 375: \<^verbatim>\<open>astroplan.Transitioner(slew_rate,
  instrument_reconfiguration_times=instrument_reconfiguration_times)\<close>, one positional
  argument and one keyword argument.
\<close>

definition make_transitioner :: "sched_env \<Rightarrow> site \<Rightarrow> transitioner res" where
  "make_transitioner env obs =
     astroplan_Transitioner env (slew_rate obs)
       [(''instrument_reconfiguration_times'', instrument_reconfiguration_times obs)]"

text \<open>Lines 202 to 306: the groups of blocks that the function goes on with.\<close>

definition schedtel_blocks :: "sched_env \<Rightarrow> sched_args \<Rightarrow> block_group list step" where
  "schedtel_blocks env args =
     rbind (raising (logging_level args)) (\<lambda>_.
     rbind (read_catalog env
              (case catalog args of
                 None \<Rightarrow> CatalogPath (default_path env ''/schedules/schedule.cat'' ''/schedule.cat'')
               | Some c \<Rightarrow> c)) (\<lambda>blocks.
     rbind (raising (validate_blocks env blocks)) (\<lambda>validated.
       Inr (apply_ignore_order (ignore_order args) validated))))"

text \<open>What the function holds when it reaches line 377.\<close>

record prepared =
  pr_blocks :: "block_group list"
  pr_observatory :: site
  pr_global_constraints :: "constraint list"
  pr_transitioner :: transitioner

definition schedtel_prepare :: "sched_env \<Rightarrow> sched_args \<Rightarrow> prepared step" where
  "schedtel_prepare env args =
     rbind (schedtel_blocks env args) (\<lambda>blocks.
     rbind (parse_observatory env (observatory args)) (\<lambda>obs.
     rbind (raising (make_transitioner env obs)) (\<lambda>tr.
       Inr \<lparr>pr_blocks = blocks,
            pr_observatory = obs,
            pr_global_constraints = global_constraints args,
            pr_transitioner = tr\<rparr>)))"

subsection \<open>Lines 377 to 432: time zone, night, scheduler\<close>

text \<open>
  Lines 378 and 379. \<^verbatim>\<open>timezonefinder.TimezoneFinder()\<close> is evaluated first, then the
  keyword arguments \<^verbatim>\<open>lon.deg\<close> and \<^verbatim>\<open>lat.deg\<close>, then the call; line 379 looks up
  \<^verbatim>\<open>zoneinfo\<close>. The namespace is a parameter, so that each lookup can be examined on its
  own; the function itself runs in \<open>schedtel_namespace\<close>.
\<close>

definition find_timezone :: "namespace \<Rightarrow> sched_env \<Rightarrow> string res" where
  "find_timezone ns env =
     rbind (load_global ns ''timezonefinder'') (\<lambda>_.
     rbind (load_global ns ''lon'') (\<lambda>lon.
     rbind (load_global ns ''lat'') (\<lambda>lat.
     rbind (timezone_at env lon lat) (\<lambda>tz.
     rbind (load_global ns ''zoneinfo'') (\<lambda>_. Inr tz)))))"

text \<open>Lines 382 to 396: noon of the date in the time zone, one day, and an empty schedule.\<close>

definition night_window :: "namespace \<Rightarrow> sched_env \<Rightarrow> sched_args \<Rightarrow> string \<Rightarrow> (rat \<times> rat) res" where
  "night_window ns env args tz =
     rbind (resolve ns [''datetime'']) (\<lambda>_.
     rbind (case date args of None \<Rightarrow> Inr (now env) | Some d \<Rightarrow> strptime env d) (\<lambda>d.
     rbind (resolve ns [''astrotime'', ''u'']) (\<lambda>_.
       Inr (noon env d tz, noon env d tz + 86400))))"

definition empty_schedule :: "rat \<Rightarrow> rat \<Rightarrow> schedule" where
  "empty_schedule t0 t1 =
     \<lparr>start_time = t0, end_time = t1,
      slots = [\<lparr>slot_start = t0, slot_end = t1, slot_block = Unused\<rparr>]\<rparr>"

text \<open>
  Lines 399 to 427. Both constructor calls pass \<^verbatim>\<open>gap_time * u.second\<close> and then
  \<^verbatim>\<open>time_resolution * u.second\<close>; the custom branch starts with \<^verbatim>\<open>importlib\<close>.
\<close>

definition make_scheduler ::
  "namespace \<Rightarrow> sched_env \<Rightarrow> sched_args \<Rightarrow> prepared \<Rightarrow> schedule_handler step" where
  "make_scheduler ns env args st =
     (if fst (scheduler args) = []
      then raising (
        rbind (resolve ns [''astroplan'', ''u'']) (\<lambda>_.
        rbind (load_global ns ''time_resolution'') (\<lambda>time_resolution.
          Inr \<lparr>sh_class = ''astroplan.PriorityScheduler'',
               sh_constraints = pr_global_constraints st,
               sh_observer = pr_observatory st,
               sh_transitioner = pr_transitioner st,
               sh_gap_time = gap_time args,
               sh_time_resolution = time_resolution\<rparr>)))
      else
        rbind (raising (resolve ns [''importlib''])) (\<lambda>_.
        rbind (raising (import_scheduler env (fst (scheduler args)) (snd (scheduler args)))) (\<lambda>(cls, is_scheduler).
        rbind (raising (resolve ns [''astroplan''])) (\<lambda>_.
          if \<not> is_scheduler then Inl Returned_None
          else raising (
            rbind (resolve ns [''u'']) (\<lambda>_.
            rbind (load_global ns ''time_resolution'') (\<lambda>time_resolution.
              Inr \<lparr>sh_class = cls,
                   sh_constraints = pr_global_constraints st,
                   sh_observer = pr_observatory st,
                   sh_transitioner = pr_transitioner st,
                   sh_gap_time = gap_time args,
                   sh_time_resolution = time_resolution\<rparr>)))))))"

text \<open>
  Lines 430 to 432. The argument of \<^verbatim>\<open>logger.debug\<close> is
  \<^verbatim>\<open>"Block group %i of i" % (i + 1, len(blocks))\<close>: one conversion for two values, which
  the \<^verbatim>\<open>%\<close> operator refuses with \<^verbatim>\<open>TypeError\<close>.
\<close>

definition percent_format :: "string \<Rightarrow> nat \<Rightarrow> unit res" where
  "percent_format fmt n = (if count_list fmt CHR ''%'' = n then Inr () else Inl TypeError)"

fun schedule_groups ::
  "sched_env \<Rightarrow> schedule_handler \<Rightarrow> block_group list \<Rightarrow> schedule \<Rightarrow> schedule res" where
  "schedule_groups env handler [] sched = Inr sched"
| "schedule_groups env handler (g # gs) sched =
     rbind (percent_format ''Block group %i of i'' 2) (\<lambda>_.
     rbind (run_scheduler env handler (items g) sched) (schedule_groups env handler gs))"

subsection \<open>Line 435: the schedule table\<close>

text \<open>
  \<^verbatim>\<open>astroplan.Schedule.to_table(show_transitions, show_unused)\<close> is library code. By its
  documentation it walks the slots in order and gives one row with the columns
  \<^verbatim>\<open>target\<close>, \<^verbatim>\<open>start time (UTC)\<close>, \<^verbatim>\<open>end time (UTC)\<close>, \<^verbatim>\<open>duration (minutes)\<close>, \<^verbatim>\<open>ra\<close>, \<^verbatim>\<open>dec\<close> and
  \<^verbatim>\<open>configuration\<close> for every slot with an observing block, for every transition block
  when \<^verbatim>\<open>show_transitions\<close> is set, and for every unused slot when \<^verbatim>\<open>show_unused\<close> is set.
  The numbers of a row are exact here; in the library the duration is a \<^verbatim>\<open>float\<close>, the result
  of a unit conversion, which can differ from the exact quotient in its last digits.
\<close>

definition table_row :: "slot \<Rightarrow> string \<Rightarrow> cell \<Rightarrow> cell \<Rightarrow> cell \<Rightarrow> row" where
  "table_row s name ra_cell dec_cell config =
     [(''target'', Text name),
      (''start time (UTC)'', Number (slot_start s)),
      (''end time (UTC)'', Number (slot_end s)),
      (''duration (minutes)'', Number ((slot_end s - slot_start s) / 60)),
      (''ra'', ra_cell),
      (''dec'', dec_cell),
      (''configuration'', config)]"

definition slot_rows :: "bool \<Rightarrow> bool \<Rightarrow> slot \<Rightarrow> row list" where
  "slot_rows show_transitions show_unused s =
     (case slot_block s of
        Observing b \<Rightarrow>
          [table_row s (ob_target b) (Number (ob_ra b)) (Number (ob_dec b)) (Config (ob_configuration b))]
      | Transition changes \<Rightarrow>
          if show_transitions
          then [table_row s ''TransitionBlock'' (Text []) (Text []) (Names changes)] else []
      | Unused \<Rightarrow>
          if show_unused then [table_row s ''Unused Time'' (Text []) (Text []) (Text [])] else [])"

definition to_table :: "bool \<Rightarrow> bool \<Rightarrow> schedule \<Rightarrow> sched_table" where
  "to_table show_transitions show_unused sched =
     concat (map (slot_rows show_transitions show_unused) (slots sched))"

subsection \<open>Lines 437 to 493: ephemerides of non-sidereal targets\<close>

datatype sched_event =
    QueriedMPC cell cell
  | QueriedBody cell cell rat
  | WroteTable string sched_table

text \<open>
  A row of the table is updated in place, so a statement that raises leaves the row as the
  statements before it made it. The computations on a row therefore carry the row on the
  exception side as well. \<^verbatim>\<open>try: m  except Exception as e: h\<close> runs the handler on the row
  as the body left it.
\<close>

type_synonym 'a on_row = "sched_event list \<times> ((py_error \<times> row) + 'a)"

definition at_row :: "row \<Rightarrow> 'a res \<Rightarrow> 'a on_row" where
  "at_row r m = ([], case m of Inl e \<Rightarrow> Inl (e, r) | Inr x \<Rightarrow> Inr x)"

definition try_except :: "'a on_row \<Rightarrow> (py_error \<Rightarrow> row \<Rightarrow> 'a on_row) \<Rightarrow> 'a on_row" where
  "try_except m h =
     (case m of
        (t, Inl (e, r)) \<Rightarrow> (case h e r of (t', x) \<Rightarrow> (t @ t', x))
      | (t, Inr x) \<Rightarrow> (t, Inr x))"

definition row_get :: "row \<Rightarrow> string \<Rightarrow> cell res" where
  "row_get r k = (case map_of r k of None \<Rightarrow> Inl (KeyError k) | Some c \<Rightarrow> Inr c)"

fun row_set :: "row \<Rightarrow> string \<Rightarrow> cell \<Rightarrow> row" where
  "row_set [] k c = [(k, c)]"
| "row_set ((k', c') # r) k c = (if k' = k then (k, c) # r else (k', c') # row_set r k c)"

text \<open>\<^verbatim>\<open>row["configuration"][k].value\<close> and \<^verbatim>\<open>row["configuration"][k] = q\<close>\<close>

fun config_value :: "cell \<Rightarrow> string \<Rightarrow> rat res" where
  "config_value (Config kv) k = (case map_of kv k of None \<Rightarrow> Inl (KeyError k) | Some q \<Rightarrow> Inr q)"
| "config_value _ k = Inl TypeError"

fun config_put :: "(string \<times> rat) list \<Rightarrow> string \<Rightarrow> rat \<Rightarrow> (string \<times> rat) list" where
  "config_put [] k q = [(k, q)]"
| "config_put ((k', q') # kv) k q = (if k' = k then (k, q) # kv else (k', q') # config_put kv k q)"

fun config_set :: "cell \<Rightarrow> string \<Rightarrow> rat \<Rightarrow> cell res" where
  "config_set (Config kv) k q = Inr (Config (config_put kv k q))"
| "config_set _ k q = Inl TypeError"

definition set_motion :: "row \<Rightarrow> string \<Rightarrow> rat \<Rightarrow> row res" where
  "set_motion r k q =
     rbind (row_get r ''configuration'') (\<lambda>c.
     rbind (config_set c k q) (\<lambda>c'. Inr (row_set r ''configuration'' c')))"

text \<open>The condition of lines 439 to 442; \<^verbatim>\<open>or\<close> does not evaluate its second operand
  when the first holds.\<close>

definition is_nonsidereal :: "row \<Rightarrow> bool res" where
  "is_nonsidereal r =
     rbind (row_get r ''configuration'') (\<lambda>c.
     rbind (config_value c ''pm_ra_cosdec'') (\<lambda>pm_ra.
       if pm_ra \<noteq> 0 then Inr True
       else rbind (config_value c ''pm_dec'') (\<lambda>pm_dec. Inr (pm_dec \<noteq> 0))))"

text \<open>
  The four assignments that end both \<^verbatim>\<open>try\<close> bodies (lines 452 to 459 and 478 to 489):
  \<^verbatim>\<open>ra\<close>, \<^verbatim>\<open>dec\<close>, then the two proper motions, whose right-hand sides look up the names
  in \<open>names\<close>.
\<close>

definition assign_position ::
  "namespace \<Rightarrow> string list \<Rightarrow> row \<Rightarrow> cell \<Rightarrow> cell \<Rightarrow> rat \<Rightarrow> rat \<Rightarrow> row on_row" where
  "assign_position ns names r ra_cell dec_cell pm_ra pm_dec =
     (let r1 = row_set (row_set r ''ra'' ra_cell) ''dec'' dec_cell in
      tbind (at_row r1 (resolve ns names)) (\<lambda>_.
      tbind (at_row r1 (set_motion r1 ''pm_ra_cosdec'' pm_ra)) (\<lambda>r2.
        at_row r2 (set_motion r2 ''pm_dec'' pm_dec))))"

text \<open>Lines 445 to 459, the body of the outer \<^verbatim>\<open>try\<close>.\<close>

definition mpc_update :: "namespace \<Rightarrow> sched_env \<Rightarrow> row \<Rightarrow> row on_row" where
  "mpc_update ns env r =
     tbind (at_row r (resolve ns [''mpc''])) (\<lambda>_.
     tbind (at_row r (row_get r ''name'')) (\<lambda>name.
     tbind (at_row r (row_get r ''start time (UTC)'')) (\<lambda>start.
     tbind (temit (QueriedMPC name start)) (\<lambda>_.
     tbind (at_row r (get_ephemeris env name start)) (\<lambda>eph.
       assign_position ns [''u''] r (Number (eph_ra eph)) (Number (eph_dec eph))
         (eph_dra_cosdec eph) (eph_ddec eph))))))"

text \<open>
  Lines 462 to 489, the body of the inner \<^verbatim>\<open>try\<close>. Its first statement formats
  \<^verbatim>\<open>row['name']\<close> and \<^verbatim>\<open>line_number\<close> into the warning; the second of the three
  \<^verbatim>\<open>get_body\<close> calls passes \<^verbatim>\<open>location=location\<close>; the arithmetic uses \<^verbatim>\<open>np\<close>.
\<close>

definition body_update :: "namespace \<Rightarrow> sched_env \<Rightarrow> row \<Rightarrow> row on_row" where
  "body_update ns env r =
     tbind (at_row r (resolve ns [''logger''])) (\<lambda>_.
     tbind (at_row r (row_get r ''name'')) (\<lambda>_.
     tbind (at_row r (resolve ns [''line_number'', ''coord''])) (\<lambda>_.
     tbind (at_row r (row_get r ''name'')) (\<lambda>name.
     tbind (at_row r (row_get r ''start time (UTC)'')) (\<lambda>start.
     tbind (at_row r (resolve ns [''u''])) (\<lambda>_.
     tbind (temit (QueriedBody name start (- 10))) (\<lambda>_.
     tbind (at_row r (get_body env name start (- 10))) (\<lambda>pos_l.
     tbind (at_row r (resolve ns [''coord'', ''location''])) (\<lambda>_.
     tbind (temit (QueriedBody name start 0)) (\<lambda>_.
     tbind (at_row r (get_body env name start 0)) (\<lambda>pos_m.
     tbind (at_row r (resolve ns [''coord'', ''u''])) (\<lambda>_.
     tbind (temit (QueriedBody name start 10)) (\<lambda>_.
     tbind (at_row r (get_body env name start 10)) (\<lambda>pos_h.
       assign_position ns [''np'', ''u''] r (Number (fst pos_m)) (Number (snd pos_m))
         (fst (body_motion env pos_l pos_h)) (snd (body_motion env pos_l pos_h))))))))))))))))"

text \<open>Lines 491 to 493, the handler of the inner \<^verbatim>\<open>try\<close>: a warning, the row is kept.\<close>

definition keep_old :: "namespace \<Rightarrow> row \<Rightarrow> row on_row" where
  "keep_old ns r =
     at_row r (rbind (resolve ns [''logger'']) (\<lambda>_.
               rbind (row_get r ''name'') (\<lambda>_.
               rbind (resolve ns [''line_number'']) (\<lambda>_. Inr r))))"

text \<open>An exception that no handler caught leaves the loop; the row goes with the table.\<close>

definition propagate :: "'a on_row \<Rightarrow> sched_event list \<times> 'a res" where
  "propagate m = (fst m, case snd m of Inl (e, r) \<Rightarrow> Inl e | Inr x \<Rightarrow> Inr x)"

definition refresh_row :: "namespace \<Rightarrow> sched_env \<Rightarrow> row \<Rightarrow> sched_event list \<times> row res" where
  "refresh_row ns env r =
     tbind (tlift (is_nonsidereal r)) (\<lambda>moving.
       if moving then
         tbind (tlift (rbind (resolve ns [''logger'']) (\<lambda>_. row_get r ''target''))) (\<lambda>_.
           propagate (try_except (mpc_update ns env r) (\<lambda>e1 r1.
                      try_except (body_update ns env r1) (\<lambda>e2 r2. keep_old ns r2))))
       else tlift (Inr r))"

fun refresh_ephemerides ::
  "namespace \<Rightarrow> sched_env \<Rightarrow> sched_table \<Rightarrow> sched_event list \<times> sched_table res" where
  "refresh_ephemerides ns env [] = tlift (Inr [])"
| "refresh_ephemerides ns env (r # rs) =
     tbind (refresh_row ns env r) (\<lambda>r'.
     tbind (refresh_ephemerides ns env rs) (\<lambda>rs'. tlift (Inr (r' # rs'))))"

subsection \<open>Lines 495 to 552: writing the table, plotting, returning\<close>

text \<open>
  \<^verbatim>\<open>os.environ.get("TELRUN_EXECUTE")\<close> does not raise when the variable is unset, so the
  handlers of lines 510 to 522 never run; \<^verbatim>\<open>os.path.isdir(None)\<close> then raises \<^verbatim>\<open>TypeError\<close>.
\<close>

definition output_name :: "sched_env \<Rightarrow> sched_args \<Rightarrow> sched_table \<Rightarrow> string res" where
  "output_name env args table =
     (if filename args = None \<or> telrun args then
        rbind (case table of [] \<Rightarrow> Inl IndexError | r # _ \<Rightarrow> row_get r ''start time (UTC)'') (\<lambda>start.
        rbind (isot env start) (\<lambda>first_time. Inr (''telrun_'' @ first_time @ ''.ecsv'')))
      else Inr (case filename args of Some f \<Rightarrow> f | None \<Rightarrow> []))"

definition output_dir :: "sched_env \<Rightarrow> sched_args \<Rightarrow> string res" where
  "output_dir env args =
     (if telrun args then
        (case environ_get env ''TELRUN_EXECUTE'' of
           None \<Rightarrow> Inl TypeError
         | Some path \<Rightarrow> Inr (if \<not> os_path_isdir env path then getcwd env @ ''/'' else path))
      else Inr (getcwd env @ ''/''))"

definition write_schedule ::
  "namespace \<Rightarrow> sched_env \<Rightarrow> sched_args \<Rightarrow> sched_table \<Rightarrow> sched_event list \<times> unit res" where
  "write_schedule ns env args table =
     tbind (tlift (resolve ns [''logger''])) (\<lambda>_.
     tbind (tlift (if filename args = None \<or> telrun args then resolve ns [''astrotime''] else Inr ())) (\<lambda>_.
     tbind (tlift (output_name env args table)) (\<lambda>name.
     tbind (tlift (resolve ns [''os''])) (\<lambda>_.
     tbind (tlift (output_dir env args)) (\<lambda>path.
     tbind (temit (WroteTable (path @ name) table)) (\<lambda>_.
       tlift (table_write env (path @ name) table)))))))"

datatype ret = Table sched_table | TableAndAxes sched_table string

text \<open>
  Lines 534 to 552. \<^verbatim>\<open>plot_schedule_gantt\<close> starts with
  \<^verbatim>\<open>if type(schedule_table) is not table.Table\<close>; \<^verbatim>\<open>plot_schedule_sky\<close> is defined without
  parameters and is called with two arguments.
\<close>

definition finish ::
  "namespace \<Rightarrow> sched_env \<Rightarrow> sched_args \<Rightarrow> schedule \<Rightarrow> sched_table \<Rightarrow> ret res" where
  "finish ns env args sched table =
     (if plot args = Some 1 then
        rbind (resolve ns [''logger'', ''plot_schedule_gantt'', ''type'', ''table'']) (\<lambda>_.
        rbind (draw_plot env ''gantt'' sched) (\<lambda>ax. Inr (TableAndAxes table ax)))
      else if plot args = Some 2 then
        rbind (resolve ns [''logger'', ''astroplan'']) (\<lambda>_.
        rbind (draw_plot env ''airmass'' sched) (\<lambda>ax.
        rbind (resolve ns [''plt'']) (\<lambda>_. Inr (TableAndAxes table ax))))
      else if plot args = Some 3 then
        rbind (resolve ns [''logger'', ''plot_schedule_sky'']) (\<lambda>_. Inl TypeError)
      else rbind (resolve ns [''logger'']) (\<lambda>_. Inr (Table table)))"

subsection \<open>The function\<close>

definition traising :: "'ev list \<times> 'a res \<Rightarrow> 'ev list \<times> 'a step" where
  "traising m = (fst m, raising (snd m))"

definition schedtel_schedule ::
  "namespace \<Rightarrow> sched_env \<Rightarrow> sched_args \<Rightarrow> prepared \<Rightarrow> sched_event list \<times> ret step" where
  "schedtel_schedule ns env args st =
     tbind (tlift (raising (find_timezone ns env))) (\<lambda>tz.
     tbind (tlift (raising (night_window ns env args tz))) (\<lambda>(t0, t1).
     tbind (tlift (make_scheduler ns env args st)) (\<lambda>handler.
     tbind (tlift (raising (schedule_groups env handler (pr_blocks st) (empty_schedule t0 t1)))) (\<lambda>sched.
     tbind (traising (refresh_ephemerides ns env (to_table False False sched))) (\<lambda>table.
     tbind (traising (write_schedule ns env args table)) (\<lambda>_.
       tlift (raising (finish ns env args sched table))))))))"

definition schedtel_in :: "namespace \<Rightarrow> sched_env \<Rightarrow> sched_args \<Rightarrow> sched_event list \<times> ret step" where
  "schedtel_in ns env args =
     tbind (tlift (schedtel_prepare env args)) (schedtel_schedule ns env args)"

definition schedtel_cli :: "sched_env \<Rightarrow> sched_args \<Rightarrow> sched_event list \<times> ret step" where
  "schedtel_cli env args = schedtel_in schedtel_namespace env args"

fun written_tables :: "sched_event list \<Rightarrow> (string \<times> sched_table) list" where
  "written_tables [] = []"
| "written_tables (WroteTable p t # evs) = (p, t) # written_tables evs"
| "written_tables (_ # evs) = written_tables evs"

fun returns_table :: "ret step \<Rightarrow> bool" where
  "returns_table (Inr r) = True"
| "returns_table (Inl s) = False"

declare validate_items.simps [simp del]

subsection \<open>The constructor of \<^verbatim>\<open>astroplan.Transitioner\<close>\<close>

text \<open>
  How Python binds the arguments of a call to the parameters of a function declared
  without \<^verbatim>\<open>*args\<close> and \<^verbatim>\<open>**kwargs\<close>: more positional arguments than parameters, a keyword
  that names no parameter, and a keyword for a parameter that a positional argument has
  filled each raise \<^verbatim>\<open>TypeError\<close>.
\<close>

definition bind_arguments :: "string list \<Rightarrow> nat \<Rightarrow> string list \<Rightarrow> unit res" where
  "bind_arguments parameters n_positional keywords =
     (if length parameters < n_positional then Inl TypeError
      else if list_ex (\<lambda>k. k \<notin> set parameters) keywords then Inl TypeError
      else if list_ex (\<lambda>k. k \<in> set (take n_positional parameters)) keywords then Inl TypeError
      else Inr ())"

text \<open>
  \<^verbatim>\<open>astroplan.Transitioner\<close> is library code. astroplan declares its constructor as
  \<^verbatim>\<open>def __init__(self, slew_rate=None, instrument_reconfig_times=None)\<close>; a parameter left
  out is \<^verbatim>\<open>None\<close>.
\<close>

definition Transitioner_parameters :: "string list" where
  "Transitioner_parameters = [''slew_rate'', ''instrument_reconfig_times'']"

definition Transitioner_init :: "rat \<Rightarrow> (string \<times> string) list \<Rightarrow> transitioner res" where
  "Transitioner_init rate kwargs =
     rbind (bind_arguments Transitioner_parameters 1 (map fst kwargs)) (\<lambda>_.
       Inr \<lparr>tr_slew_rate = rate,
            tr_instrument_reconfig_times = map_of kwargs ''instrument_reconfig_times''\<rparr>)"

subsection \<open>A concrete night\<close>

text \<open>
  The catalog \<^verbatim>\<open>night.cat\<close> lists four files: \<^verbatim>\<open>a.sch\<close> holds two valid blocks around
  two invalid ones, \<^verbatim>\<open>missing.sch\<close> does not exist, \<^verbatim>\<open>broken.sch\<close> does not parse, and
  \<^verbatim>\<open>b.sch\<close> holds one valid block. \<^verbatim>\<open>validate_ob\<close> accepts a block with a positive
  duration. \<^verbatim>\<open>os.path.isfile\<close> on a list raises, as CPython's does. The observatory is
  the configuration file \<^verbatim>\<open>observatory.cfg\<close>, and the constructor of the transitioner is
  astroplan's. \<open>demo_block i name d\<close> is the block with identity \<open>i\<close>, target \<open>name\<close> and
  duration \<open>d\<close>.
\<close>

definition demo_block :: "nat \<Rightarrow> string \<Rightarrow> rat \<Rightarrow> pyobject" where
  "demo_block i name d =
     ObservingBlock \<lparr>ob_id = i, ob_target = name, ob_ra = 10, ob_dec = 20, ob_duration = d, ob_priority = 1,
                     ob_configuration = [(''pm_ra_cosdec'', 0), (''pm_dec'', 0)]\<rparr>"

definition demo_validate_ob :: "pyobject \<Rightarrow> pyobject res" where
  "demo_validate_ob x =
     (case x of
        ObservingBlock b \<Rightarrow> if 0 < ob_duration b then Inr x else Inl ValueError
      | NotABlock s \<Rightarrow> Inl TypeError)"

definition demo_site :: site where
  "demo_site =
     \<lparr>obs_long = - 91, obs_lat = 41, obs_height = 200, slew_rate = 2,
      instrument_reconfiguration_times = ''{}'', instrument_name = ''Main''\<rparr>"

definition demo_sched_env :: sched_env where
  "demo_sched_env =
     \<lparr>environ_get = (\<lambda>v. None),
      getcwd = ''/obs'',
      os_path_isfile = (\<lambda>c. case c of
          CatalogPath p \<Rightarrow> Inr (p \<in> set [''night.cat'', ''a.sch'', ''broken.sch'', ''b.sch'', ''twins.sch''])
        | _ \<Rightarrow> Inl TypeError),
      os_path_isdir = (\<lambda>p. p = ''/obs''),
      read_lines = (\<lambda>p. if p = ''night.cat''
                         then Inr [''a.sch'', ''missing.sch'', ''broken.sch'', ''b.sch'']
                         else Inl (LibraryError ''OSError'')),
      sch_read = (\<lambda>p.
        if p = ''a.sch''
        then Inr \<lparr>is_tuple = False,
                  items = [demo_block 1 ''M31'' 60, demo_block 2 ''bad1'' 0,
                           demo_block 3 ''bad2'' (- 5), demo_block 4 ''M33'' 30]\<rparr>
        else if p = ''b.sch'' then Inr \<lparr>is_tuple = False, items = [demo_block 5 ''M51'' 45]\<rparr>
        else if p = ''twins.sch''
        then Inr \<lparr>is_tuple = False,
                  items = [demo_block 2 ''bad1'' 0, demo_block 3 ''bad2'' (- 5)]\<rparr>
        else Inl ValueError),
      validate_ob = demo_validate_ob,
      cfg_getfloat = (\<lambda>file section opt.
        if file \<noteq> ''observatory.cfg'' then Inl (LibraryError ''NoSectionError'')
        else if (section, opt) = (''site'', ''longitude'') then Inr (- 91)
        else if (section, opt) = (''site'', ''latitude'') then Inr 41
        else if (section, opt) = (''site'', ''elevation'') then Inr 200
        else if (section, opt) = (''scheduling'', ''slew_rate'') then Inr 2
        else Inl (LibraryError ''NoOptionError'')),
      cfg_get = (\<lambda>file section opt.
        if file \<noteq> ''observatory.cfg'' then Inl (LibraryError ''NoSectionError'')
        else if (section, opt) = (''scheduling'', ''instrument_reconfiguration_times'')
        then Inr ''{}''
        else if (section, opt) = (''site'', ''instrument_name'') then Inr ''Main''
        else Inl (LibraryError ''NoOptionError'')),
      json_loads = (\<lambda>s. Inr s),
      astroplan_Observer = (\<lambda>lon lat height.
        if - 90 \<le> lat \<and> lat \<le> 90 then Inr () else Inl ValueError),
      astroplan_Transitioner = Transitioner_init,
      timezone_at = (\<lambda>lon lat. Inr ''America/Chicago''),
      now = (2024, 1, 1),
      strptime = (\<lambda>s. Inr (2024, 3, 1)),
      noon = (\<lambda>d tz. 0),
      import_scheduler = (\<lambda>file name. Inr (name, True)),
      run_scheduler = (\<lambda>h blocks sched. Inr sched),
      get_ephemeris = (\<lambda>name start. Inl (LibraryError ''no ephemeris'')),
      get_body = (\<lambda>name start offset. Inr (1, 2)),
      body_motion = (\<lambda>l h. (0, 0)),
      isot = (\<lambda>c. Inr ''2024-03-01T18:00:00''),
      table_write = (\<lambda>p t. Inr ()),
      draw_plot = (\<lambda>kind sched. Inr kind)\<rparr>"

definition demo_sched_args :: sched_args where
  "demo_sched_args =
     \<lparr>catalog = Some (CatalogPath ''night.cat''),
      ignore_order = False,
      date = Some ''2024-03-01'',
      observatory = Some (ObservatoryPath ''observatory.cfg''),
      max_altitude = - 12,
      elevation = 30,
      airmass = 3,
      moon_separation = 30,
      scheduler = ([], []),
      gap_time = 60,
      resolution = 5,
      filename = None,
      telrun = False,
      plot = None,
      quiet = False,
      verbose_count = 0\<rparr>"

subsection \<open>Reading the events and the table\<close>

definition table_columns :: "string list" where
  "table_columns =
     [''target'', ''start time (UTC)'', ''end time (UTC)'', ''duration (minutes)'', ''ra'', ''dec'',
      ''configuration'']"

text \<open>The slots that hold an observing block, as (target, start, end), in order.\<close>

fun observing_slots :: "slot list \<Rightarrow> (string \<times> rat \<times> rat) list" where
  "observing_slots [] = []"
| "observing_slots (s # ss) =
     (case slot_block s of
        Observing b \<Rightarrow> (ob_target b, slot_start s, slot_end s) # observing_slots ss
      | _ \<Rightarrow> observing_slots ss)"

text \<open>Reading (target, start, end) back from a table.\<close>

fun read_allocation :: "row \<Rightarrow> (string \<times> rat \<times> rat) option" where
  "read_allocation r =
     (case (map_of r ''target'', map_of r ''start time (UTC)'', map_of r ''end time (UTC)'') of
        (Some (Text n), Some (Number a), Some (Number b)) \<Rightarrow> Some (n, a, b)
      | _ \<Rightarrow> None)"

definition read_allocations :: "sched_table \<Rightarrow> (string \<times> rat \<times> rat) option list" where
  "read_allocations table = map read_allocation table"

text \<open>
  Two schedules of the same night: between the two observations the first has a
  transition block, the second an unused slot.
\<close>

definition demo_ob :: "nat \<Rightarrow> string \<Rightarrow> observing_block" where
  "demo_ob i name =
     \<lparr>ob_id = i, ob_target = name, ob_ra = 10, ob_dec = 20, ob_duration = 3600, ob_priority = 1,
      ob_configuration = [(''pm_ra_cosdec'', 0), (''pm_dec'', 0)]\<rparr>"

definition schedule_with_transition :: schedule where
  "schedule_with_transition =
     \<lparr>start_time = 0, end_time = 86400,
      slots = [\<lparr>slot_start = 0, slot_end = 3600, slot_block = Observing (demo_ob 1 ''M31'')\<rparr>,
               \<lparr>slot_start = 3600, slot_end = 3660, slot_block = Transition [''filter'']\<rparr>,
               \<lparr>slot_start = 3660, slot_end = 7260, slot_block = Observing (demo_ob 4 ''M33'')\<rparr>,
               \<lparr>slot_start = 7260, slot_end = 86400, slot_block = Unused\<rparr>]\<rparr>"

definition schedule_with_gap :: schedule where
  "schedule_with_gap =
     \<lparr>start_time = 0, end_time = 86400,
      slots = [\<lparr>slot_start = 0, slot_end = 3600, slot_block = Observing (demo_ob 1 ''M31'')\<rparr>,
               \<lparr>slot_start = 3600, slot_end = 3660, slot_block = Unused\<rparr>,
               \<lparr>slot_start = 3660, slot_end = 7260, slot_block = Observing (demo_ob 4 ''M33'')\<rparr>,
               \<lparr>slot_start = 7260, slot_end = 86400, slot_block = Unused\<rparr>]\<rparr>"




section \<open>The scheduler of the specification\<close>

text \<open>
  pyscope's own \<^verbatim>\<open>Condition\<close>, \<^verbatim>\<open>_Block\<close>, \<^verbatim>\<open>Queue\<close>, \<^verbatim>\<open>Prioritizer\<close>, \<^verbatim>\<open>Optimizer\<close>, \<^verbatim>\<open>Schedule\<close> and
  \<^verbatim>\<open>Scheduler\<close> classes are imported by \<^verbatim>\<open>telrun/__init__.py\<close>, but their modules are not
  among the embedded sources, and \<^verbatim>\<open>schedtel_cli\<close> hands the scheduling to astroplan. The
  definitions of this section are therefore written from sections 3, 4, 6 and 7 of the
  specification. Times are integers and durations natural numbers, in the unit of the
  caller's clock.
\<close>

subsection \<open>Conditions and blocks\<close>

text \<open>
  Modelled from the spec: the \<^verbatim>\<open>ConditionResult\<close> of section 4.1 (class \<^verbatim>\<open>BoundaryCondition\<close>
  and its subclasses are missing), a satisfied flag and a score.
\<close>

record evaluation =
  ev_satisfied :: bool
  ev_score :: rat

text \<open>
  Modelled from the spec: a \<^verbatim>\<open>Condition\<close> (section 3) is its \<^verbatim>\<open>evaluate\<close>, a pure function
  of the time for the block's target at the site, with the answers of the ephemeris
  service fixed.
\<close>

type_synonym condition = "int \<Rightarrow> evaluation"

text \<open>
  Modelled from the spec: a \<^verbatim>\<open>Block\<close> (section 3; class \<^verbatim>\<open>_Block\<close> is missing) with its id,
  owning project, target, conditions, priority, the total duration of its field, and the
  lower bound of its \<^verbatim>\<open>TimeCondition\<close> if it has one.
\<close>

record block =
  block_id :: nat
  block_project :: nat
  block_target :: nat
  block_conditions :: "condition list"
  block_priority :: rat
  block_duration :: nat
  block_earliest :: "int option"

text \<open>
  Modelled from the spec: \<^verbatim>\<open>is_feasible\<close> of section 4.3 (missing with \<^verbatim>\<open>_Block\<close>), the
  conjunction of the conditions' satisfied flags at the time.
\<close>

definition is_feasible :: "block \<Rightarrow> int \<Rightarrow> bool" where
  "is_feasible b t = list_all (\<lambda>c. ev_satisfied (c t)) (block_conditions b)"

text \<open>
  Modelled from the spec: \<^verbatim>\<open>score\<close> of section 4.3 (missing with \<^verbatim>\<open>_Block\<close>), the priority
  times the arithmetic mean of the conditions' scores; a block without conditions has the
  mean 1.
\<close>

definition mean_score :: "rat list \<Rightarrow> rat" where
  "mean_score xs = (if xs = [] then 1 else sum_list xs / of_nat (length xs))"

definition block_score :: "block \<Rightarrow> int \<Rightarrow> rat" where
  "block_score b t = block_priority b * mean_score (map (\<lambda>c. ev_score (c t)) (block_conditions b))"

subsection \<open>The services the core consumes\<close>

text \<open>
  Modelled from the spec: the ephemeris service of section 6 (an external collaborator).
  A lookup that fails or is undefined is \<open>None\<close>. Positions are (altitude, azimuth).
\<close>

record ephemeris_service =
  target_position :: "nat \<Rightarrow> int \<Rightarrow> (rat \<times> rat) option"
  sun_position :: "int \<Rightarrow> (rat \<times> rat) option"
  moon_position :: "int \<Rightarrow> (rat \<times> rat) option"
  airmass_of :: "rat \<Rightarrow> rat option"
  separation :: "rat \<times> rat \<Rightarrow> rat \<times> rat \<Rightarrow> rat"

text \<open>
  Modelled from the spec: the site-wide conditions of section 4.7, step 3 (Sun altitude
  ceiling, minimum elevation, maximum airmass, minimum Moon separation), over the
  constraints that \<open>global_constraints\<close> builds; a failed lookup is infeasibility
  (sections 4.1 and 7).
\<close>

fun passes :: "ephemeris_service \<Rightarrow> constraint \<Rightarrow> nat \<Rightarrow> int \<Rightarrow> bool" where
  "passes eph (AltitudeConstraint lowest) tgt t =
     (case target_position eph tgt t of None \<Rightarrow> False | Some (alt, az) \<Rightarrow> lowest \<le> alt)"
| "passes eph (AtNightConstraint highest_sun) tgt t =
     (case sun_position eph t of None \<Rightarrow> False | Some (alt, az) \<Rightarrow> alt \<le> highest_sun)"
| "passes eph (AirmassConstraint highest graded) tgt t =
     (case target_position eph tgt t of
        None \<Rightarrow> False
      | Some (alt, az) \<Rightarrow> (case airmass_of eph alt of None \<Rightarrow> False | Some x \<Rightarrow> x \<le> highest))"
| "passes eph (MoonSeparationConstraint least) tgt t =
     (case target_position eph tgt t of
        None \<Rightarrow> False
      | Some p \<Rightarrow> (case moon_position eph t of None \<Rightarrow> False | Some q \<Rightarrow> least \<le> separation eph p q))"

text \<open>
  Modelled from the spec: what a scheduling run is given besides the queue and the
  window (sections 4.5, 4.6 and 6): the transition-cost service, the prioritizer's policy
  (a function of the accrued time per project, the cursor and the block), the tick of the
  optimizer, the site-wide conditions and the ephemeris service.
\<close>

record services =
  transition_cost :: "block option \<Rightarrow> block \<Rightarrow> nat"
  prioritizer :: "(nat \<Rightarrow> nat) \<Rightarrow> int \<Rightarrow> block \<Rightarrow> rat"
  tick :: nat
  site_conditions :: "constraint list"
  ephemerides :: ephemeris_service

subsection \<open>Queue\<close>

datatype queue_error = DuplicateID nat

text \<open>
  Modelled from the spec: the \<^verbatim>\<open>Queue\<close> of sections 3 and 4.4 (class \<^verbatim>\<open>Queue\<close> is missing), the
  pending blocks in insertion order; \<^verbatim>\<open>add\<close> fails on a known id, \<^verbatim>\<open>remove\<close> of an unknown
  id does nothing.
\<close>

definition queue_add :: "block list \<Rightarrow> block \<Rightarrow> queue_error + block list" where
  "queue_add q b =
     (if block_id b \<in> set (map block_id q) then Inl (DuplicateID (block_id b)) else Inr (q @ [b]))"

definition queue_remove :: "block list \<Rightarrow> nat \<Rightarrow> block list" where
  "queue_remove q i = filter (\<lambda>b. block_id b \<noteq> i) q"

fun position_in :: "nat list \<Rightarrow> nat \<Rightarrow> nat" where
  "position_in [] i = 0"
| "position_in (j # js) i = (if i = j then 0 else Suc (position_in js i))"

text \<open>
  Modelled from the spec: the order of \<^verbatim>\<open>snapshot\<close> (section 4.4): ranking descending, ties
  broken by the earliest \<^verbatim>\<open>TimeCondition\<close> lower bound (a block without one comes first),
  then by insertion order. Triples are compared lexicographically.
\<close>

definition snapshot_key :: "(block \<Rightarrow> rat) \<Rightarrow> block list \<Rightarrow> block \<Rightarrow> rat \<times> int option \<times> nat" where
  "snapshot_key ranking q b =
     (- ranking b, block_earliest b, position_in (map block_id q) (block_id b))"

definition snapshot :: "(block \<Rightarrow> rat) \<Rightarrow> block list \<Rightarrow> block list" where
  "snapshot ranking q = sort_key (snapshot_key ranking q) q"

text \<open>
  Modelled from the spec: what section 4.4 asks of any implementation of \<^verbatim>\<open>snapshot\<close>: on a
  queue with distinct ids it returns the queue's blocks in the order above.
\<close>

definition conforming :: "((block \<Rightarrow> rat) \<Rightarrow> block list \<Rightarrow> block list) \<Rightarrow> bool" where
  "conforming snap =
     (\<forall>ranking q. distinct (map block_id q) \<longrightarrow>
        mset (snap ranking q) = mset q \<and> sorted (map (snapshot_key ranking q) (snap ranking q)))"

subsection \<open>Optimizer\<close>

text \<open>
  Modelled from the spec: the span test of section 4.6 (class \<^verbatim>\<open>Optimizer\<close> is missing): the
  block is feasible at every instant of [cursor, cursor + transition cost + total
  duration], and the span ends before the window closes (section 3: a slot before window
  close).
\<close>

definition span_feasible :: "services \<Rightarrow> int \<Rightarrow> block option \<Rightarrow> int \<Rightarrow> block \<Rightarrow> bool" where
  "span_feasible sv window_end last_block cursor b =
     (let stop = cursor + int (transition_cost sv last_block b) + int (block_duration b)
      in stop \<le> window_end \<and> list_all (is_feasible b) [cursor..stop])"

text \<open>
  Modelled from the spec: "pick the one maximizing score" (section 4.6); of several with
  the greatest score the first in the snapshot's order.
\<close>

fun best :: "(block \<Rightarrow> rat) \<Rightarrow> block list \<Rightarrow> block option" where
  "best f [] = None"
| "best f (x # xs) =
     (case best f xs of
        None \<Rightarrow> Some x
      | Some y \<Rightarrow> if f x < f y then Some y else Some x)"

text \<open>
  Modelled from the spec: \<^verbatim>\<open>select_next\<close> of section 4.6: the best candidate feasible over
  its span at the cursor; if there is none, the cursor advances by the tick and the search
  is repeated; \<open>None\<close> when the window closes first. The result holds the cursor at which
  the block was found.
\<close>

function select_next ::
  "services \<Rightarrow> int \<Rightarrow> block list \<Rightarrow> int \<Rightarrow> block option \<Rightarrow> (block \<times> int) option" where
  "select_next sv window_end candidates cursor last_block =
     (if window_end \<le> cursor then None
      else case best (\<lambda>b. block_score b cursor)
                  (filter (span_feasible sv window_end last_block cursor) candidates) of
             Some b \<Rightarrow> Some (b, cursor)
           | None \<Rightarrow>
               if tick sv = 0 then None
               else select_next sv window_end candidates (cursor + int (tick sv)) last_block)"
  by pat_completeness auto
termination
  by (relation "measure (\<lambda>(sv, window_end, candidates, cursor, last_block). nat (window_end - cursor))")
    auto

declare select_next.simps [simp del]

subsection \<open>Scheduler\<close>

text \<open>
  Modelled from the spec: the entries of a \<^verbatim>\<open>Schedule\<close> (section 3; classes \<^verbatim>\<open>Schedule\<close>,
  \<^verbatim>\<open>ScheduleBlock\<close>, \<^verbatim>\<open>TransitionField\<close> and \<^verbatim>\<open>UnallocatedBlock\<close> are missing): a scheduled block
  with its id, a transition, or an unallocated gap, each with start and end.
\<close>

datatype entry =
    ScheduledBlock nat int int
  | TransitionEntry int int
  | UnallocatedBlock int int

fun entry_start :: "entry \<Rightarrow> int" where
  "entry_start (ScheduledBlock i a b) = a"
| "entry_start (TransitionEntry a b) = a"
| "entry_start (UnallocatedBlock a b) = a"

fun entry_end :: "entry \<Rightarrow> int" where
  "entry_end (ScheduledBlock i a b) = b"
| "entry_end (TransitionEntry a b) = b"
| "entry_end (UnallocatedBlock a b) = b"

text \<open>
  Modelled from the spec: the terminal states of section 4.7: \<^verbatim>\<open>Completed\<close> with the
  schedule, \<^verbatim>\<open>Aborted\<close> with the partial schedule and a diagnostic.
\<close>

datatype run_result = Completed "entry list" | Aborted "entry list" string

text \<open>
  Modelled from the spec: what the \<^verbatim>\<open>Running\<close> loop of section 4.7 carries from one
  iteration to the next: the cursor, the pending blocks, the previous placement and the
  accrued time per project (the prioritizer's bookkeeping).
\<close>

record sched_state =
  st_cursor :: int
  st_pending :: "block list"
  st_last :: "block option"
  st_accrued :: "nat \<Rightarrow> nat"

text \<open>
  Modelled from the spec: section 4.5, the prioritizer is invoked once before each
  selection and sets the priority of every pending block.
\<close>

definition reprioritise :: "services \<Rightarrow> sched_state \<Rightarrow> block list" where
  "reprioritise sv s =
     map (\<lambda>b. b\<lparr>block_priority := prioritizer sv (st_accrued s) (st_cursor s) b\<rparr>) (st_pending s)"

text \<open>
  Modelled from the spec: steps 2 and 3 of section 4.7: the snapshot ranked by priority,
  filtered to the blocks that pass every site-wide condition at the cursor. \<open>snap\<close> is the
  implementation of \<^verbatim>\<open>snapshot\<close> in use.
\<close>

definition candidates ::
  "((block \<Rightarrow> rat) \<Rightarrow> block list \<Rightarrow> block list) \<Rightarrow> services \<Rightarrow> sched_state \<Rightarrow> block list" where
  "candidates snap sv s =
     filter (\<lambda>b. list_all (\<lambda>c. passes (ephemerides sv) c (block_target b) (st_cursor s))
                   (site_conditions sv))
       (snap block_priority (reprioritise sv s))"

text \<open>
  Modelled from the spec: step 5 of section 4.7 for the block \<open>b\<close> found at \<open>t\<close>: an
  unallocated gap for the time the optimizer let pass (sections 2 and 3: gaps are explicit
  \<^verbatim>\<open>UnallocatedBlock\<close>s), a transition if the cost is positive, and the block.
\<close>

definition placement :: "services \<Rightarrow> sched_state \<Rightarrow> block \<Rightarrow> int \<Rightarrow> entry list" where
  "placement sv s b t =
     (let start = t + int (transition_cost sv (st_last s) b)
      in (if st_cursor s < t then [UnallocatedBlock (st_cursor s) t] else [])
         @ (if 0 < transition_cost sv (st_last s) b then [TransitionEntry t start] else [])
         @ [ScheduledBlock (block_id b) start (start + int (block_duration b))])"

definition placed :: "services \<Rightarrow> sched_state \<Rightarrow> block \<Rightarrow> int \<Rightarrow> sched_state" where
  "placed sv s b t =
     \<lparr>st_cursor = t + int (transition_cost sv (st_last s) b) + int (block_duration b),
      st_pending = queue_remove (reprioritise sv s) (block_id b),
      st_last = Some b,
      st_accrued = (st_accrued s)(block_project b := st_accrued s (block_project b) + block_duration b)\<rparr>"

text \<open>
  Modelled from the spec: the \<^verbatim>\<open>Running\<close> loop of section 4.7 (class \<^verbatim>\<open>Scheduler\<close> is missing).
  A chosen block that is not pending or has no duration (start = end) is an
  unrecoverable input error (step 7); when nothing is chosen the remaining time, if any,
  becomes a final \<^verbatim>\<open>UnallocatedBlock\<close> (step 6).
\<close>

function run_loop ::
  "((block \<Rightarrow> rat) \<Rightarrow> block list \<Rightarrow> block list) \<Rightarrow> services \<Rightarrow> int \<Rightarrow> sched_state \<Rightarrow> entry list
     \<Rightarrow> run_result" where
  "run_loop snap sv window_end s acc =
     (case select_next sv window_end (candidates snap sv s) (st_cursor s) (st_last s) of
        None \<Rightarrow>
          Completed (acc @ (if st_cursor s < window_end
                            then [UnallocatedBlock (st_cursor s) window_end] else []))
      | Some (b, t) \<Rightarrow>
          if block_id b \<notin> set (map block_id (st_pending s)) then Aborted acc ''queue integrity''
          else if block_duration b = 0 then Aborted acc ''malformed block''
          else run_loop snap sv window_end (placed sv s b t) (acc @ placement sv s b t))"
  by pat_completeness auto
termination
proof (relation "measure (\<lambda>(snap, sv, window_end, s, acc). length (st_pending s))")
  show "wf (measure (\<lambda>(snap, sv, window_end, s, acc). length (st_pending s)))"
    by simp
next
  fix snap :: "(block \<Rightarrow> rat) \<Rightarrow> block list \<Rightarrow> block list"
    and sv window_end and s :: sched_state and acc :: "entry list" and x2 and b :: block and t
  assume "\<not> block_id b \<notin> set (map block_id (st_pending s))"
  then have "block_id b \<in> block_id ` set (st_pending s)" by simp
  then have "length (filter (\<lambda>x. block_id x \<noteq> block_id b) (st_pending s)) < length (st_pending s)"
    by (auto intro!: length_filter_less)
  then show "((snap, sv, window_end, placed sv s b t, acc @ placement sv s b t),
              (snap, sv, window_end, s, acc))
             \<in> measure (\<lambda>(snap, sv, window_end, s, acc). length (st_pending s))"
    by (simp add: placed_def queue_remove_def reprioritise_def filter_map comp_def)
qed

declare run_loop.simps [simp del]

text \<open>
  Modelled from the spec: a scheduling run (sections 4.7 and 7): an empty queue, a window
  whose end is not after its start, and a queue with a repeated id are structural
  failures; otherwise the loop starts with the cursor at the window's start.
\<close>

definition scheduling_run ::
  "((block \<Rightarrow> rat) \<Rightarrow> block list \<Rightarrow> block list) \<Rightarrow> services \<Rightarrow> int \<Rightarrow> int \<Rightarrow> block list \<Rightarrow> run_result" where
  "scheduling_run snap sv window_start window_end queue =
     (if window_end \<le> window_start then Aborted [] ''window''
      else if queue = [] then Aborted [] ''empty queue''
      else if \<not> distinct (map block_id queue) then Aborted [] ''queue integrity''
      else run_loop snap sv window_end
             \<lparr>st_cursor = window_start, st_pending = queue, st_last = None,
              st_accrued = (\<lambda>p. 0)\<rparr> [])"

subsection \<open>What the specification asks of a schedule\<close>

text \<open>
  The entries follow one another from \<open>a\<close> to \<open>b\<close>: each starts where the one before
  ended (at \<open>a\<close> for the first) and ends later than it starts, and the last ends at \<open>b\<close>.
\<close>

fun tiles :: "int \<Rightarrow> int \<Rightarrow> entry list \<Rightarrow> bool" where
  "tiles a b [] = (a = b)"
| "tiles a b (e # es) = (entry_start e = a \<and> a < entry_end e \<and> tiles (entry_end e) b es)"

fun no_overlap :: "entry list \<Rightarrow> bool" where
  "no_overlap [] = True"
| "no_overlap [e] = True"
| "no_overlap (e # e' # es) = (entry_end e \<le> entry_start e' \<and> no_overlap (e' # es))"

text \<open>
  Modelled from the spec: the four site-wide conditions that step 3 of section 4.7 names
  (Sun altitude ceiling, minimum elevation, maximum airmass, minimum Moon separation),
  with the limits that the arguments of \<^verbatim>\<open>schedtel_cli\<close> give them, asked of the target
  \<open>tgt\<close> at the instant \<open>t\<close>.
\<close>

definition passes_site_wide :: "ephemeris_service \<Rightarrow> sched_args \<Rightarrow> nat \<Rightarrow> int \<Rightarrow> bool" where
  "passes_site_wide eph args tgt t =
     (passes eph (AtNightConstraint (max_altitude args)) tgt t
      \<and> passes eph (AltitudeConstraint (elevation args)) tgt t
      \<and> passes eph (AirmassConstraint (airmass args) False) tgt t
      \<and> passes eph (MoonSeparationConstraint (moon_separation args)) tgt t)"

text \<open>
  A pending block \<open>x\<close> is a block of the queue \<open>q\<close>, whatever priority it was given since:
  it has the identifier and the target of a block of \<open>q\<close>.
\<close>

definition from_queue :: "block list \<Rightarrow> block \<Rightarrow> bool" where
  "from_queue q x = list_ex (\<lambda>y. block_id y = block_id x \<and> block_target y = block_target x) q"

text \<open>
  A scheduled entry is accounted for when it is the block of the queue \<open>q\<close> with its
  identifier, and that block passed the four conditions at an instant between the start
  of the window and the start of the entry (the cursor at which it was selected).
\<close>

definition filtered_before ::
  "ephemeris_service \<Rightarrow> sched_args \<Rightarrow> block list \<Rightarrow> int \<Rightarrow> entry \<Rightarrow> bool" where
  "filtered_before eph args q ws e =
     (case e of
        ScheduledBlock i a z \<Rightarrow>
          list_ex (\<lambda>b. block_id b = i
                       \<and> list_ex (\<lambda>c. passes_site_wide eph args (block_target b) c) [ws..a]) q
      | TransitionEntry a z \<Rightarrow> True
      | UnallocatedBlock a z \<Rightarrow> True)"

subsection \<open>The scenario of section 8\<close>

text \<open>
  Two blocks of one hour each, A with priority 10 and feasible from 0 to 2, B with
  priority 5 and feasible from 0 to 4, no transition cost, the window from 0 to 4 (hours),
  under a sky in which every site-wide condition of the demo arguments holds.
\<close>

definition feasible_until :: "int \<Rightarrow> condition" where
  "feasible_until hi t = \<lparr>ev_satisfied = (0 \<le> t \<and> t \<le> hi), ev_score = 1\<rparr>"

definition block_A :: block where
  "block_A =
     \<lparr>block_id = 1, block_project = 1, block_target = 1, block_conditions = [feasible_until 2],
      block_priority = 10, block_duration = 1, block_earliest = None\<rparr>"

definition block_B :: block where
  "block_B =
     \<lparr>block_id = 2, block_project = 2, block_target = 2, block_conditions = [feasible_until 4],
      block_priority = 5, block_duration = 1, block_earliest = None\<rparr>"

definition clear_sky :: ephemeris_service where
  "clear_sky =
     \<lparr>target_position = (\<lambda>tgt t. Some (60, 180)),
      sun_position = (\<lambda>t. Some (- 30, 0)),
      moon_position = (\<lambda>t. Some (- 10, 90)),
      airmass_of = (\<lambda>alt. Some (6 / 5)),
      separation = (\<lambda>p q. 90)\<rparr>"

definition demo_services :: services where
  "demo_services =
     \<lparr>transition_cost = (\<lambda>prev b. 0),
      prioritizer = (\<lambda>accrued cursor b. block_priority b),
      tick = 1,
      site_conditions = global_constraints demo_sched_args,
      ephemerides = clear_sky\<rparr>"

text \<open>Another way to compute the snapshot: sorting the queue read backwards.\<close>

definition snapshot_backwards :: "(block \<Rightarrow> rat) \<Rightarrow> block list \<Rightarrow> block list" where
  "snapshot_backwards ranking q = sort_key (snapshot_key ranking q) (rev q)"

chapter \<open>Properties\<close>

section \<open>Sequencing\<close>

lemma tbind_tlift_Inl [simp]: "tbind (tlift (Inl e)) f = ([], Inl e)"
  by (simp add: tbind_def tlift_def)

lemma tbind_tlift_Inr [simp]: "tbind (tlift (Inr x)) f = f x"
  by (simp add: tbind_def tlift_def split: prod.splits)

lemma fst_tbind: "fst (tbind m f) = fst m @ (case snd m of Inl e \<Rightarrow> [] | Inr x \<Rightarrow> fst (f x))"
  by (cases m) (simp add: tbind_def split: sum.splits prod.splits)

lemma snd_tbind: "snd (tbind m f) = (case snd m of Inl e \<Rightarrow> Inl e | Inr x \<Rightarrow> snd (f x))"
  by (cases m) (simp add: tbind_def split: sum.splits prod.splits)

lemma fst_tlift [simp]: "fst (tlift r) = []"
  by (simp add: tlift_def)

lemma snd_tlift [simp]: "snd (tlift r) = r"
  by (simp add: tlift_def)

lemma fst_temit [simp]: "fst (temit ev) = [ev]"
  by (simp add: temit_def)

lemma snd_temit [simp]: "snd (temit ev) = Inr ()"
  by (simp add: temit_def)

section \<open>\<^verbatim>\<open>SunCondition\<close>\<close>

text \<open>
  Claim C6, as the specification states it: evaluating a condition returns a result with
  a boolean satisfied flag and a score in \<open>[0, 1]\<close>, with satisfied false when the
  ephemeris lookup fails. \<^verbatim>\<open>SunCondition.__call__\<close> returns \<^verbatim>\<open>None\<close> already with its
  default arguments and default bounds, which is no such result.
\<close>

theorem SunCondition_call_no_result:
  "\<not> is_condition_result
       (SunCondition_call (SunCondition_init 0 180 (- 90) 90)
          (None :: nat option) (None :: nat option) (None :: nat option))"
  by (simp add: SunCondition_call_def)

text \<open>
  Claim C6, amended: \<^verbatim>\<open>SunCondition.__call__\<close> is total and never raises; for every
  instance, time, location and target it returns \<^verbatim>\<open>None\<close>. It looks nothing up, so no
  lookup failure can reach the caller, and it yields neither a satisfied flag nor a
  score.
\<close>

theorem SunCondition_call_returns_None:
  "SunCondition_call self time location target = Inr NoneValue"
  by (simp add: SunCondition_call_def)

section \<open>\<^verbatim>\<open>ccd_calib_cli\<close>: only the first file name is used\<close>

lemma load_calibration_frames_fnames:
  "load_calibration_frames env (args\<lparr>fnames := fs\<rparr>) = load_calibration_frames env args"
  by (simp add: load_calibration_frames_def)

lemma prepare_flat_fnames:
  "prepare_flat env (args\<lparr>fnames := fs\<rparr>) cal fl = prepare_flat env args cal fl"
  by (simp add: prepare_flat_def)

lemma apply_flat_fnames:
  "apply_flat env (args\<lparr>fnames := fs\<rparr>) cal x = apply_flat env args cal x"
  by (simp add: apply_flat_def prepare_flat_fnames)

lemma subtract_bias_dark_fnames:
  "subtract_bias_dark env (args\<lparr>fnames := fs\<rparr>) cal im = subtract_bias_dark env args cal im"
  by (simp add: subtract_bias_dark_def)

lemma compare_headers_fnames:
  "compare_headers (args\<lparr>fnames := fs\<rparr>) cal = compare_headers args cal"
  by (simp add: compare_headers_def)

lemma calibrate_image_fnames:
  "calibrate_image env (args\<lparr>fnames := fs\<rparr>) cal p = calibrate_image env args cal p"
  by (simp add: calibrate_image_def apply_flat_fnames subtract_bias_dark_fnames
      compare_headers_fnames cong: if_cong)

lemma write_calibrated_fnames:
  "write_calibrated env (args\<lparr>fnames := fs\<rparr>) p x h = write_calibrated env args p x h"
  by (simp add: write_calibrated_def)

lemma calibrate_one_fnames:
  "calibrate_one env (args\<lparr>fnames := fs\<rparr>) cal p = calibrate_one env args cal p"
  by (simp add: calibrate_one_def calibrate_image_fnames write_calibrated_fnames)

lemma calibrate_all_fnames:
  "calibrate_all env (args\<lparr>fnames := fs\<rparr>) cal ps = calibrate_all env args cal ps"
  by (induction ps arbitrary: cal) (simp_all add: calibrate_one_fnames)

lemma got_data_paths_append:
  "got_data_paths (xs @ ys) = got_data_paths xs @ got_data_paths ys"
  by (induction xs rule: got_data_paths.induct) simp_all

lemma wrote_paths_append: "wrote_paths (xs @ ys) = wrote_paths xs @ wrote_paths ys"
  by (induction xs rule: wrote_paths.induct) simp_all

lemma fst_calibrate_image: "fst (calibrate_image env args cal p) = [GotData p]"
  by (simp add: calibrate_image_def fst_tbind)

lemma got_write_calibrated: "got_data_paths (fst (write_calibrated env args p x h)) = []"
  by (simp add: write_calibrated_def fst_tbind split: sum.splits)

lemma got_calibrate_one: "got_data_paths (fst (calibrate_one env args cal p)) = [p]"
  by (simp add: calibrate_one_def fst_tbind fst_calibrate_image got_data_paths_append
      got_write_calibrated split: sum.splits prod.splits)

text \<open>The loop reads the images in order and stops at the first one that raises.\<close>

lemma got_calibrate_all:
  "\<exists>n. got_data_paths (fst (calibrate_all env args cal ps)) = take n ps"
proof (induction ps arbitrary: cal)
  case Nil
  then show ?case by simp
next
  case (Cons p ps)
  show ?case
  proof (cases "snd (calibrate_one env args cal p)")
    case (Inl e)
    then have "got_data_paths (fst (calibrate_all env args cal (p # ps))) = take 1 (p # ps)"
      by (simp add: fst_tbind got_data_paths_append got_calibrate_one)
    then show ?thesis by blast
  next
    case (Inr cal')
    from Cons.IH [of cal'] obtain n
      where "got_data_paths (fst (calibrate_all env args cal' ps)) = take n ps" by blast
    with Inr have
      "got_data_paths (fst (calibrate_all env args cal (p # ps))) = take (Suc n) (p # ps)"
      by (simp add: fst_tbind got_data_paths_append got_calibrate_one)
    then show ?thesis by blast
  qed
qed

lemma got_load_frame: "got_data_paths (fst (load_frame env r path)) = []"
  by (simp add: load_frame_def fst_tbind split: option.splits)

lemma got_load_calibration_frames:
  "got_data_paths (fst (load_calibration_frames env args)) = []"
  by (simp add: load_calibration_frames_def fst_tbind got_data_paths_append got_load_frame
      split: sum.splits)

text \<open>
  Claim C9: \<^verbatim>\<open>ccd_calib\<close> calibrates only the first element of \<^verbatim>\<open>fnames\<close>. With an empty
  \<^verbatim>\<open>fnames\<close> the call raises \<^verbatim>\<open>IndexError\<close> and has opened no frame (the trace is empty).
  With \<^verbatim>\<open>fnames = f, rest...\<close> the whole run, trace and result, is the run on \<^verbatim>\<open>f\<close> alone,
  whatever \<^verbatim>\<open>rest\<close> is; the images it reads are an initial part of what \<^verbatim>\<open>f\<close> expands
  to: \<^verbatim>\<open>f\<close> itself when it is a file, the \<^verbatim>\<open>*.fts\<close>, \<^verbatim>\<open>*.fits\<close> and \<^verbatim>\<open>*.fit\<close> entries of \<^verbatim>\<open>f\<close>
  when it is a directory.
\<close>

theorem ccd_calib_first_fname_only:
  "ccd_calib_cli env (args\<lparr>fnames := []\<rparr>) = ([], Inl IndexError)
   \<and> ccd_calib_cli env (args\<lparr>fnames := f # rest\<rparr>) = ccd_calib_cli env (args\<lparr>fnames := [f]\<rparr>)
   \<and> (\<exists>n. got_data_paths (fst (ccd_calib_cli env (args\<lparr>fnames := f # rest\<rparr>)))
            = take n (image_paths env f))
   \<and> image_paths env f =
       (if isfile env f then [f]
        else if isdir env f
        then glob env (f @ ''/*.fts'') @ glob env (f @ ''/*.fits'') @ glob env (f @ ''/*.fit'')
        else map (\<lambda>c. [c]) f)"
proof -
  have empty: "ccd_calib_cli env (args\<lparr>fnames := []\<rparr>) = ([], Inl IndexError)"
    by (simp add: ccd_calib_cli_def first_fname_def)
  have first: "ccd_calib_cli env (args\<lparr>fnames := f # rest\<rparr>)
      = ccd_calib_cli env (args\<lparr>fnames := [f]\<rparr>)"
    by (simp add: ccd_calib_cli_def first_fname_def load_calibration_frames_fnames
        calibrate_all_fnames)
  have reads: "\<exists>n. got_data_paths (fst (ccd_calib_cli env (args\<lparr>fnames := f # rest\<rparr>)))
      = take n (image_paths env f)"
    using got_calibrate_all [of env "args\<lparr>fnames := f # rest\<rparr>" _ "image_paths env f"]
    by (simp add: ccd_calib_cli_def first_fname_def fst_tbind got_data_paths_append
        got_load_calibration_frames split: sum.splits)
  from empty first reads show ?thesis
    by (simp add: image_paths_def)
qed

section \<open>\<^verbatim>\<open>ccd_calib_cli\<close>: a bad-column string raises\<close>

lemma fix_bad_columns_str:
  "s \<noteq> [] \<Longrightarrow> fix_bad_columns env (PStr s) cal_image = Inl TypeError"
  by (cases s) (simp_all add: fix_bad_columns_def fix_column_def rbind_def)

lemma wrote_calibrate_one:
  "bad_columns args = PStr s \<Longrightarrow> s \<noteq> [] \<Longrightarrow>
   wrote_paths (fst (calibrate_one env args cal p)) = []
   \<and> (\<exists>e. snd (calibrate_one env args cal p) = Inl e)"
  by (simp add: calibrate_one_def fst_tbind snd_tbind fst_calibrate_image fix_bad_columns_str
      split: sum.splits prod.splits)

lemma wrote_calibrate_all:
  assumes "bad_columns args = PStr s" and "s \<noteq> []"
  shows "wrote_paths (fst (calibrate_all env args cal ps)) = []"
proof (cases ps)
  case Nil
  then show ?thesis by simp
next
  case (Cons p rest)
  from wrote_calibrate_one [OF assms, of env cal p] obtain e
    where "wrote_paths (fst (calibrate_one env args cal p)) = []"
      and "snd (calibrate_one env args cal p) = Inl e" by blast
  with Cons show ?thesis by (simp add: fst_tbind)
qed

lemma wrote_load_frame: "wrote_paths (fst (load_frame env r path)) = []"
  by (simp add: load_frame_def fst_tbind split: option.splits)

lemma wrote_load_calibration_frames:
  "wrote_paths (fst (load_calibration_frames env args)) = []"
  by (simp add: load_calibration_frames_def fst_tbind wrote_paths_append wrote_load_frame
      split: sum.splits)

lemmas ccd_demo_defs =
  demo_ccd_env_def demo_ccd_args_def demo_header_def demo_column_def demo_set_column_def
  demo_width_def

lemmas ccd_model_defs =
  ccd_calib_cli_def first_fname_def load_calibration_frames_def load_frame_def
  read_frame_header_def hdr_get2_def hdr_get_def hdr_filter_def hdr_exptime_rounded_def
  round_half_even_def image_paths_def calibrate_one_def calibrate_image_def
  read_image_header_def compare_headers_def local_var_def subtract_bias_dark_def
  subtract_scaled_dark_def apply_flat_def prepare_flat_def fix_bad_columns_def fix_column_def
  write_calibrated_def cal_name_def tbind_def tlift_def temit_def rbind_def

text \<open>
  With a list of integers the loop does what its log message says: column 1 of the
  image becomes the mean of columns 0 and 2, and the calibrated image is written.
\<close>

lemma ccd_calib_int_columns:
  "fst (ccd_calib_cli demo_ccd_env (demo_ccd_args\<lparr>bad_columns := PList [PyInt 1]\<rparr>)) =
     [Opened ''bias.fts'', Opened ''dark.fts'', Opened ''flat.fts'', GotData ''m51.fts'',
      WroteTo ''m51_cal.fts'' [[1100, 1102, 1104]]
        (demo_header(''PEDESTAL'' \<mapsto> HNum 1000, ''CALSTAT'' \<mapsto> HBool True))]"
  by (simp add: ccd_demo_defs ccd_model_defs)

text \<open>
  Claim C10: for every non-empty \<^verbatim>\<open>bad_columns\<close> string, the loop runs over the
  characters of the string, separators included, each a \<^verbatim>\<open>str\<close>; the column correction
  raises (\<^verbatim>\<open>TypeError\<close>, at \<^verbatim>\<open>badcol - 1\<close> on the first character) for every image that
  reaches it, and the run writes no calibrated image.
\<close>

theorem bad_columns_str_raises:
  "bad_columns args = PStr s \<Longrightarrow> s \<noteq> [] \<Longrightarrow>
     py_iter (bad_columns args) = map (\<lambda>c. PyStr [c]) s
   \<and> fix_bad_columns env (bad_columns args) cal_image = Inl TypeError
   \<and> wrote_paths (fst (ccd_calib_cli env args)) = []"
  by (simp add: fix_bad_columns_str ccd_calib_cli_def fst_tbind wrote_paths_append
      wrote_load_calibration_frames wrote_calibrate_all split: sum.splits)

theorem bad_columns_str_raises_witness:
  "bad_columns demo_ccd_args = PStr ''1,2'' \<and> ''1,2'' \<noteq> []
   \<and> py_iter (bad_columns demo_ccd_args) = [PyStr ''1'', PyStr '','', PyStr ''2'']
   \<and> fix_bad_columns demo_ccd_env (bad_columns demo_ccd_args) [[100, 900, 104]] = Inl TypeError
   \<and> wrote_paths (fst (ccd_calib_cli demo_ccd_env demo_ccd_args)) = []
   \<and> ccd_calib_cli demo_ccd_env demo_ccd_args =
       ([Opened ''bias.fts'', Opened ''dark.fts'', Opened ''flat.fts'', GotData ''m51.fts''],
        Inl TypeError)"
proof -
  have h1: "bad_columns demo_ccd_args = PStr ''1,2''"
    by (simp add: demo_ccd_args_def)
  have h2: "''1,2'' \<noteq> []"
    by simp
  have run: "ccd_calib_cli demo_ccd_env demo_ccd_args =
       ([Opened ''bias.fts'', Opened ''dark.fts'', Opened ''flat.fts'', GotData ''m51.fts''],
        Inl TypeError)"
    by (simp add: ccd_demo_defs ccd_model_defs)
  from bad_columns_str_raises [OF h1 h2, of demo_ccd_env "[[100, 900, 104]]"] h1 run
  show ?thesis by simp
qed

section \<open>\<^verbatim>\<open>schedtel_cli\<close>: names that nothing binds\<close>

lemma schedtel_unbound:
  "schedtel_namespace ''lon'' = None"
  "schedtel_namespace ''lat'' = None"
  "schedtel_namespace ''zoneinfo'' = None"
  "schedtel_namespace ''time_resolution'' = None"
  "schedtel_namespace ''importlib'' = None"
  "schedtel_namespace ''line_number'' = None"
  "schedtel_namespace ''location'' = None"
  "schedtel_namespace ''np'' = None"
  "schedtel_namespace ''table'' = None"
  by (simp_all add: schedtel_namespace_def schedtel_module_globals_def python_builtins_def)

lemma schedtel_bound:
  "schedtel_namespace ''timezonefinder'' = Some (Module ''timezonefinder'')"
  "schedtel_namespace ''astroplan'' = Some (Module ''astroplan'')"
  "schedtel_namespace ''u'' = Some (Module ''astropy.units'')"
  "schedtel_namespace ''mpc'' = Some (Module ''astroquery.mpc'')"
  "schedtel_namespace ''logger'' = Some (Instance ''logging.Logger'')"
  "schedtel_namespace ''coord'' = Some (Module ''astropy.coordinates'')"
  by (simp_all add: schedtel_namespace_def schedtel_module_globals_def python_builtins_def)

lemma find_timezone_lon: "find_timezone schedtel_namespace env = Inl (NameError ''lon'')"
  by (simp add: find_timezone_def load_global_def rbind_def schedtel_unbound schedtel_bound)

lemma find_timezone_zoneinfo:
  "find_timezone (schedtel_namespace(''lon'' \<mapsto> lon, ''lat'' \<mapsto> lat)) env =
     rbind (timezone_at env lon lat) (\<lambda>tz. Inl (NameError ''zoneinfo''))"
  by (simp add: find_timezone_def load_global_def rbind_def schedtel_unbound schedtel_bound)

lemma make_scheduler_actual:
  "make_scheduler schedtel_namespace env args st =
     Inl (Raised (NameError (if fst (scheduler args) = [] then ''time_resolution''
                             else ''importlib'')))"
  by (simp add: make_scheduler_def load_global_def rbind_def raising_def schedtel_unbound
      schedtel_bound)

lemma schedtel_schedule_lon:
  "schedtel_schedule schedtel_namespace env args st = ([], Inl (Raised (NameError ''lon'')))"
  by (simp add: schedtel_schedule_def find_timezone_lon raising_def)

lemma schedtel_cli_cases:
  "schedtel_cli env args =
     (case schedtel_prepare env args of
        Inl s \<Rightarrow> ([], Inl s)
      | Inr st \<Rightarrow> ([], Inl (Raised (NameError ''lon''))))"
  by (simp add: schedtel_cli_def schedtel_in_def schedtel_schedule_lon split: sum.splits)

lemmas sched_demo_defs =
  demo_sched_env_def demo_sched_args_def demo_block_def demo_validate_ob_def demo_site_def

lemmas prepare_defs =
  schedtel_blocks_def logging_level_def read_catalog_def endswith_def validate_group_def
  parse_observatory_def read_site_config_def make_observer_def apply_ignore_order_def
  raising_def rbind_def default_path_def

text \<open>Line 373 decides what a run raises once the catalog and the observatory are read.\<close>

lemma schedtel_cli_parsed:
  assumes "schedtel_blocks env args = Inr blocks"
    and "parse_observatory env (observatory args) = Inr obs"
  shows "schedtel_cli env args =
     ([], Inl (Raised (case make_transitioner env obs of
                         Inl e \<Rightarrow> e | Inr tr \<Rightarrow> NameError ''lon'')))"
  using assms
  by (simp add: schedtel_cli_cases schedtel_prepare_def rbind_def raising_def split: sum.splits)

text \<open>
  astroplan's constructor has no parameter \<^verbatim>\<open>instrument_reconfiguration_times\<close>: it
  refuses the call of line 373, whatever the two values are.
\<close>

lemma Transitioner_init_refuses:
  "Transitioner_init rate [(''instrument_reconfiguration_times'', reconfig)] = Inl TypeError"
  by (simp add: Transitioner_init_def bind_arguments_def Transitioner_parameters_def rbind_def)

lemma demo_night_blocks:
  "schedtel_blocks demo_sched_env demo_sched_args =
     Inr [\<lparr>is_tuple = False,
           items = [demo_block 1 ''M31'' 60, demo_block 3 ''bad2'' (- 5),
                    demo_block 4 ''M33'' 30]\<rparr>,
          \<lparr>is_tuple = False, items = [demo_block 5 ''M51'' 45]\<rparr>]"
  by (simp add: sched_demo_defs prepare_defs validate_items.simps)

lemma demo_night_observatory:
  "parse_observatory demo_sched_env (observatory demo_sched_args) = Inr demo_site"
  by (simp add: sched_demo_defs prepare_defs)

text \<open>
  Claim C8, as stated: on every input whose catalog and observatory parse, the function
  raises \<^verbatim>\<open>NameError\<close>. On the night of \<^verbatim>\<open>night.cat\<close> and \<^verbatim>\<open>observatory.cfg\<close> both parse, and
  the function raises \<^verbatim>\<open>TypeError\<close>: line 373 calls \<^verbatim>\<open>astroplan.Transitioner\<close> with the keyword
  \<^verbatim>\<open>instrument_reconfiguration_times\<close>, and the parameter of the constructor is
  \<^verbatim>\<open>instrument_reconfig_times\<close>. The run ends there, before the time zone is computed.
\<close>

theorem parsed_night_raises_TypeError:
  "schedtel_blocks demo_sched_env demo_sched_args =
     Inr [\<lparr>is_tuple = False,
           items = [demo_block 1 ''M31'' 60, demo_block 3 ''bad2'' (- 5),
                    demo_block 4 ''M33'' 30]\<rparr>,
          \<lparr>is_tuple = False, items = [demo_block 5 ''M51'' 45]\<rparr>]
   \<and> parse_observatory demo_sched_env (observatory demo_sched_args) = Inr demo_site
   \<and> schedtel_cli demo_sched_env demo_sched_args = ([], Inl (Raised TypeError))"
proof -
  have "make_transitioner demo_sched_env demo_site = Inl TypeError"
    by (simp add: make_transitioner_def demo_sched_env_def Transitioner_init_refuses)
  with schedtel_cli_parsed [OF demo_night_blocks demo_night_observatory]
  have "schedtel_cli demo_sched_env demo_sched_args = ([], Inl (Raised TypeError))"
    by simp
  with demo_night_blocks demo_night_observatory show ?thesis by simp
qed

text \<open>
  Claim C8, amended: on every input whose catalog and observatory parse, \<^verbatim>\<open>schedtel_cli\<close>
  raises before it constructs the schedule, having written nothing: it raises what the
  call of line 373 raises, which with astroplan's constructor is \<^verbatim>\<open>TypeError\<close> for every
  observatory, so that no run reaches the time zone of line 378; a run that line 373 let
  through would raise \<^verbatim>\<open>NameError\<close> for \<^verbatim>\<open>lon\<close> there. On every input at all the function
  writes no table and returns none. The module binds none of \<^verbatim>\<open>lon\<close>, \<^verbatim>\<open>lat\<close>, \<^verbatim>\<open>zoneinfo\<close> and
  \<^verbatim>\<open>time_resolution\<close>: line 378 raises for \<^verbatim>\<open>lon\<close>; were \<^verbatim>\<open>lon\<close> and \<^verbatim>\<open>lat\<close> bound, line 379
  would raise for \<^verbatim>\<open>zoneinfo\<close>; and the construction of the scheduler raises for
  \<^verbatim>\<open>time_resolution\<close> in the default branch (for \<^verbatim>\<open>importlib\<close> in the other), while the
  parameter \<^verbatim>\<open>resolution\<close> is never read.
\<close>

theorem schedtel_cli_raises_before_scheduling:
  "(schedtel_blocks env args = Inr blocks \<longrightarrow>
    parse_observatory env (observatory args) = Inr obs \<longrightarrow>
      schedtel_cli env args =
        ([], Inl (Raised (case make_transitioner env obs of
                            Inl e \<Rightarrow> e | Inr tr \<Rightarrow> NameError ''lon''))))
   \<and> make_transitioner (env\<lparr>astroplan_Transitioner := Transitioner_init\<rparr>) obs = Inl TypeError
   \<and> written_tables (fst (schedtel_cli env args)) = []
   \<and> \<not> returns_table (snd (schedtel_cli env args))
   \<and> schedtel_namespace ''lon'' = None
   \<and> schedtel_namespace ''lat'' = None
   \<and> schedtel_namespace ''zoneinfo'' = None
   \<and> schedtel_namespace ''time_resolution'' = None
   \<and> find_timezone schedtel_namespace env = Inl (NameError ''lon'')
   \<and> find_timezone (schedtel_namespace(''lon'' \<mapsto> lon, ''lat'' \<mapsto> lat)) env =
       rbind (timezone_at env lon lat) (\<lambda>tz. Inl (NameError ''zoneinfo''))
   \<and> make_scheduler schedtel_namespace env args st =
       Inl (Raised (NameError (if fst (scheduler args) = [] then ''time_resolution''
                               else ''importlib'')))"
proof -
  have reach: "schedtel_blocks env args = Inr blocks \<longrightarrow>
      parse_observatory env (observatory args) = Inr obs \<longrightarrow>
      schedtel_cli env args =
        ([], Inl (Raised (case make_transitioner env obs of
                            Inl e \<Rightarrow> e | Inr tr \<Rightarrow> NameError ''lon'')))"
    using schedtel_cli_parsed [of env args blocks obs] by blast
  have refused: "make_transitioner (env\<lparr>astroplan_Transitioner := Transitioner_init\<rparr>) obs
      = Inl TypeError"
    by (simp add: make_transitioner_def Transitioner_init_refuses)
  have no_table: "written_tables (fst (schedtel_cli env args)) = []
      \<and> \<not> returns_table (snd (schedtel_cli env args))"
    by (simp add: schedtel_cli_cases split: sum.splits)
  from reach refused no_table schedtel_unbound(1-4) find_timezone_lon [of env]
    find_timezone_zoneinfo [of lon lat env] make_scheduler_actual [of env args st]
  show ?thesis by blast
qed

theorem schedtel_cli_raises_before_scheduling_witness:
  "schedtel_blocks demo_sched_env demo_sched_args =
     Inr [\<lparr>is_tuple = False,
           items = [demo_block 1 ''M31'' 60, demo_block 3 ''bad2'' (- 5),
                    demo_block 4 ''M33'' 30]\<rparr>,
          \<lparr>is_tuple = False, items = [demo_block 5 ''M51'' 45]\<rparr>]
   \<and> parse_observatory demo_sched_env (observatory demo_sched_args) = Inr demo_site
   \<and> make_transitioner demo_sched_env demo_site = Inl TypeError
   \<and> schedtel_cli demo_sched_env demo_sched_args = ([], Inl (Raised TypeError))
   \<and> written_tables (fst (schedtel_cli demo_sched_env demo_sched_args)) = []
   \<and> \<not> returns_table (snd (schedtel_cli demo_sched_env demo_sched_args))"
proof -
  have refused: "make_transitioner demo_sched_env demo_site = Inl TypeError"
    by (simp add: make_transitioner_def demo_sched_env_def Transitioner_init_refuses)
  note c8 = schedtel_cli_raises_before_scheduling
    [of demo_sched_env demo_sched_args
      "[\<lparr>is_tuple = False,
         items = [demo_block 1 ''M31'' 60, demo_block 3 ''bad2'' (- 5),
                  demo_block 4 ''M33'' 30]\<rparr>,
        \<lparr>is_tuple = False, items = [demo_block 5 ''M51'' 45]\<rparr>]"
      demo_site "Module ''lon''" "Module ''lat''"]
  from c8 demo_night_blocks demo_night_observatory refused
  have run: "schedtel_cli demo_sched_env demo_sched_args = ([], Inl (Raised TypeError))"
    by simp
  from c8 have "written_tables (fst (schedtel_cli demo_sched_env demo_sched_args)) = []"
    and "\<not> returns_table (snd (schedtel_cli demo_sched_env demo_sched_args))"
    by blast+
  with demo_night_blocks demo_night_observatory refused run show ?thesis by blast
qed

section \<open>\<^verbatim>\<open>schedtel_cli\<close>: validation of the blocks\<close>

text \<open>A group all of whose objects pass validation is left as it is.\<close>

lemma validate_items_all_valid:
  "list_all (\<lambda>b. \<exists>b'. v b = Inr b') block \<Longrightarrow> validate_items v i block = block"
proof (induction "length block - i" arbitrary: i)
  case 0
  then show ?case by (simp add: validate_items.simps)
next
  case (Suc n)
  then have i: "i < length block" by simp
  with Suc.prems obtain b' where "v (block ! i) = Inr b'"
    by (auto simp add: list_all_length)
  moreover have "validate_items v (Suc i) block = block"
    using Suc.hyps(1) [of "Suc i"] Suc.hyps(2) Suc.prems by simp
  ultimately show ?case using i by (subst validate_items.simps) simp
qed

text \<open>
  The object after a removed one is never validated: of two objects, the second stays
  whatever \<^verbatim>\<open>validate_ob\<close> says about it.
\<close>

lemma validate_items_skips_next: "v b1 = Inl e \<Longrightarrow> validate_items v 0 [b1, b2] = [b2]"
  by (simp add: validate_items.simps)

text \<open>
  Claim C5 asks that every invalid entry is skipped or removed on its own. For missing
  and unparseable files of a \<^verbatim>\<open>.cat\<close> catalog that is what \<open>read_sch_files\<close> does. The
  validation loop does not: in a file with the two invalid blocks \<^verbatim>\<open>bad1\<close> and \<^verbatim>\<open>bad2\<close>,
  \<^verbatim>\<open>bad1\<close> is removed and \<^verbatim>\<open>bad2\<close>, which \<^verbatim>\<open>validate_ob\<close> rejects, stays among the blocks
  that the function goes on with after line 306; in the catalog \<^verbatim>\<open>night.cat\<close> the same
  happens inside \<^verbatim>\<open>a.sch\<close>.
\<close>

theorem validation_keeps_invalid_block:
  "demo_validate_ob (demo_block 3 ''bad2'' (- 5)) = Inl ValueError
   \<and> validate_items demo_validate_ob 0 [demo_block 2 ''bad1'' 0, demo_block 3 ''bad2'' (- 5)]
       = [demo_block 3 ''bad2'' (- 5)]
   \<and> schedtel_blocks demo_sched_env
         (demo_sched_args\<lparr>catalog := Some (CatalogPath ''twins.sch'')\<rparr>)
       = Inr [\<lparr>is_tuple = False, items = [demo_block 3 ''bad2'' (- 5)]\<rparr>]
   \<and> schedtel_blocks demo_sched_env demo_sched_args =
       Inr [\<lparr>is_tuple = False,
             items = [demo_block 1 ''M31'' 60, demo_block 3 ''bad2'' (- 5),
                      demo_block 4 ''M33'' 30]\<rparr>,
            \<lparr>is_tuple = False, items = [demo_block 5 ''M51'' 45]\<rparr>]"
  by (simp add: sched_demo_defs prepare_defs validate_items.simps)

section \<open>\<^verbatim>\<open>schedtel_cli\<close>: the ephemeris refresh\<close>

lemma fst_at_row [simp]: "fst (at_row r m) = []"
  by (simp add: at_row_def)

lemma fst_propagate [simp]: "fst (propagate m) = fst m"
  by (simp add: propagate_def)

lemmas refresh_defs =
  refresh_row_def propagate_def is_nonsidereal_def row_get_def rbind_def tbind_def tlift_def
  temit_def load_global_def try_except_def mpc_update_def at_row_def body_update_def
  keep_old_def assign_position_def set_motion_def










section \<open>\<^verbatim>\<open>schedtel_cli\<close>: the exported table\<close>

lemma columns_slot_rows: "list_all (\<lambda>r. map fst r = table_columns) (slot_rows a b s)"
  by (simp add: slot_rows_def table_row_def table_columns_def split: slot_content.splits)

lemma columns_to_table: "list_all (\<lambda>r. map fst r = table_columns) (to_table a b sched)"
  by (simp add: to_table_def list_all_iff columns_slot_rows [unfolded list_all_iff])

lemma read_allocation_rows:
  "map read_allocation (concat (map (slot_rows False False) ss)) = map Some (observing_slots ss)"
  by (induction ss) (simp_all add: slot_rows_def table_row_def split: slot_content.splits)

lemma written_write_schedule:
  "list_all (\<lambda>(p, t). t = table) (written_tables (fst (write_schedule ns env args table)))"
  by (simp add: write_schedule_def fst_tbind split: sum.splits)

text \<open>
  Claim C7, as stated: allocation order and timing, transitions and unallocated gaps
  included, can be reconstructed from the exported table. Line 435 asks for the table
  with \<^verbatim>\<open>show_transitions=False\<close> and \<^verbatim>\<open>show_unused=False\<close>: a night with a transition
  block between two observations and the same night with an unused slot there give the
  same table.
\<close>

theorem table_forgets_transitions:
  "schedule_with_transition \<noteq> schedule_with_gap
   \<and> to_table False False schedule_with_transition = to_table False False schedule_with_gap"
  by (simp add: schedule_with_transition_def schedule_with_gap_def to_table_def slot_rows_def)

text \<open>
  Claim C7, amended: every row of the table has the columns target, start time, end time,
  duration, ra, dec and configuration; the table of line 435 has one row per observing
  block, in slot order, from which target, start and end of every scheduled observing
  block are read back exactly; transition blocks and unused slots are not in it. The
  table that is written is that table.
\<close>

theorem table_keeps_observing_blocks:
  "list_all (\<lambda>r. map fst r = table_columns) (to_table show_transitions show_unused sched)
   \<and> read_allocations (to_table False False sched) = map Some (observing_slots (slots sched))
   \<and> list_all (\<lambda>(p, t). t = table) (written_tables (fst (write_schedule ns env args table)))"
proof -
  have "read_allocations (to_table False False sched) = map Some (observing_slots (slots sched))"
    by (simp add: read_allocations_def to_table_def read_allocation_rows)
  with columns_to_table [of show_transitions show_unused sched]
    written_write_schedule [of table ns env args]
  show ?thesis by blast
qed

section \<open>The scheduler of the specification: the schedule tiles the window\<close>

lemma best_member: "best f xs = Some b \<Longrightarrow> b \<in> set xs"
  by (induction xs arbitrary: b) (auto split: option.splits if_splits)

lemma select_next_sound:
  "select_next sv we cands c prev = Some (b, t) \<Longrightarrow>
   c \<le> t \<and> t < we \<and> b \<in> set cands \<and> span_feasible sv we prev t b"
proof (induction sv we cands c prev rule: select_next.induct)
  case (1 sv we cands c prev)
  show ?case
  proof (cases "we \<le> c")
    case True
    with "1.prems" show ?thesis by (simp add: select_next.simps)
  next
    case False
    show ?thesis
    proof (cases "best (\<lambda>b. block_score b c) (filter (span_feasible sv we prev c) cands)")
      case (Some x)
      with False "1.prems" have "x = b" "t = c" by (simp_all add: select_next.simps)
      with Some best_member [OF Some] False show ?thesis by auto
    next
      case None
      with False "1.prems" have tk: "tick sv \<noteq> 0"
        and rec: "select_next sv we cands (c + int (tick sv)) prev = Some (b, t)"
        by (simp_all add: select_next.simps split: if_splits)
      from "1.IH" [OF False None tk rec] show ?thesis by auto
    qed
  qed
qed

lemma tiles_append: "tiles a m xs \<Longrightarrow> tiles m b ys \<Longrightarrow> tiles a b (xs @ ys)"
  by (induction xs arbitrary: a) auto

lemma tiles_placement:
  assumes "st_cursor s \<le> t" and "0 < block_duration b"
  shows "tiles (st_cursor s) (st_cursor (placed sv s b t)) (placement sv s b t)"
  using assms by (auto simp add: placement_def placed_def Let_def)

lemma run_loop_tiles:
  "tiles ws (st_cursor s) acc \<Longrightarrow> st_cursor s \<le> we \<Longrightarrow>
   run_loop snap sv we s acc = Completed sched \<Longrightarrow> tiles ws we sched"
proof (induction snap sv we s acc rule: run_loop.induct)
  case (1 snap sv we s acc)
  show ?case
  proof (cases "select_next sv we (candidates snap sv s) (st_cursor s) (st_last s)")
    case None
    with "1.prems"(3) have sched: "sched = acc @ (if st_cursor s < we
        then [UnallocatedBlock (st_cursor s) we] else [])"
      by (simp add: run_loop.simps)
    have "tiles (st_cursor s) we (if st_cursor s < we
        then [UnallocatedBlock (st_cursor s) we] else [])"
      using "1.prems"(2) by auto
    with "1.prems"(1) sched show ?thesis by (simp add: tiles_append)
  next
    case (Some bt)
    obtain b t where bt: "bt = (b, t)" by (cases bt)
    from "1.prems"(3) Some bt have mem: "\<not> block_id b \<notin> set (map block_id (st_pending s))"
      and dur: "\<not> block_duration b = 0"
      and rec: "run_loop snap sv we (placed sv s b t) (acc @ placement sv s b t) = Completed sched"
      by (simp_all add: run_loop.simps split: if_splits)
    from select_next_sound [OF Some [unfolded bt]]
    have le: "st_cursor s \<le> t" and fit: "span_feasible sv we (st_last s) t b" by simp_all
    from dur have pos: "0 < block_duration b" by simp
    have t1: "tiles ws (st_cursor (placed sv s b t)) (acc @ placement sv s b t)"
      using "1.prems"(1) tiles_placement [OF le pos] by (rule tiles_append)
    have t2: "st_cursor (placed sv s b t) \<le> we"
      using fit by (simp add: span_feasible_def placed_def Let_def)
    from "1.IH" [OF Some bt [symmetric] mem dur t1 t2 rec] show ?thesis .
  qed
qed

lemma scheduling_run_tiles:
  "scheduling_run snap sv ws we q = Completed sched \<Longrightarrow> tiles ws we sched"
  using run_loop_tiles [of ws "\<lparr>st_cursor = ws, st_pending = q, st_last = None, st_accrued = (\<lambda>p. 0)\<rparr>" "[]" we snap sv sched]
  by (simp add: scheduling_run_def split: if_splits)

lemma tiles_positive: "tiles a b es \<Longrightarrow> list_all (\<lambda>e. entry_start e < entry_end e) es"
  by (induction es arbitrary: a) auto

lemma tiles_no_overlap: "tiles a b es \<Longrightarrow> no_overlap es"
  by (induction es arbitrary: a rule: no_overlap.induct) auto

lemma tiles_le: "tiles a b es \<Longrightarrow> a \<le> b"
  by (induction es arbitrary: a) force+

lemma tiles_union:
  "tiles a b es \<Longrightarrow> es \<noteq> [] \<Longrightarrow> (\<Union>e\<in>set es. {entry_start e .. entry_end e}) = {a .. b}"
proof (induction es arbitrary: a)
  case Nil
  then show ?case by simp
next
  case (Cons e es)
  show ?case
  proof (cases "es = []")
    case True
    with Cons.prems show ?thesis by simp
  next
    case False
    from Cons.prems have e: "entry_start e = a" "a < entry_end e" and rest: "tiles (entry_end e) b es"
      by simp_all
    from Cons.IH [OF rest False] have "(\<Union>e\<in>set es. {entry_start e .. entry_end e}) = {entry_end e .. b}" .
    moreover from tiles_le [OF rest] have "entry_end e \<le> b" .
    ultimately show ?thesis using e by auto
  qed
qed

section \<open>The scheduler of the specification: one snapshot order\<close>

lemma position_in_inj:
  "i \<in> set js \<Longrightarrow> j \<in> set js \<Longrightarrow> position_in js i = position_in js j \<Longrightarrow> i = j"
  by (induction js) (auto split: if_splits)

lemma snapshot_key_inj:
  assumes "distinct (map block_id q)"
  shows "inj_on (snapshot_key ranking q) (set q)"
proof (rule inj_onI)
  fix x y
  assume x: "x \<in> set q" and y: "y \<in> set q"
    and k: "snapshot_key ranking q x = snapshot_key ranking q y"
  from k have p: "position_in (map block_id q) (block_id x) = position_in (map block_id q) (block_id y)"
    by (simp add: snapshot_key_def)
  from x have ix: "block_id x \<in> set (map block_id q)" by simp
  from y have iy: "block_id y \<in> set (map block_id q)" by simp
  from ix iy p have "block_id x = block_id y" by (rule position_in_inj)
  moreover from assms have "inj_on block_id (set q)"
    by (simp add: distinct_map)
  ultimately show "x = y" using x y by (simp add: inj_on_def)
qed

lemma conforming_unique:
  assumes c: "conforming snap" and d: "distinct (map block_id q)"
  shows "snap ranking q = snapshot ranking q"
proof -
  let ?k = "snapshot_key ranking q"
  from c d have m: "mset (snap ranking q) = mset q" and s: "sorted (map ?k (snap ranking q))"
    by (simp_all add: conforming_def)
  from m have set1: "set (snap ranking q) = set q" by (rule mset_eq_setD)
  from d have dq: "distinct q" by (simp add: distinct_map)
  from mset_eq_imp_distinct_iff [OF m] dq have d1: "distinct (snap ranking q)" by simp
  have set2: "set (snapshot ranking q) = set q" by (simp add: snapshot_def)
  have d2: "distinct (snapshot ranking q)" using dq by (simp add: snapshot_def)
  have s2: "sorted (map ?k (snapshot ranking q))" by (simp add: snapshot_def)
  have inj: "inj_on ?k (set q)" using d by (rule snapshot_key_inj)
  show ?thesis
  proof (rule map_sorted_distinct_set_unique [of ?k])
    show "inj_on ?k (set (snap ranking q) \<union> set (snapshot ranking q))"
      using inj set1 set2 by simp
    show "sorted (map ?k (snap ranking q))" by (rule s)
    show "distinct (map ?k (snap ranking q))"
      using d1 inj set1 by (simp add: distinct_map)
    show "sorted (map ?k (snapshot ranking q))" by (rule s2)
    show "distinct (map ?k (snapshot ranking q))"
      using d2 inj set2 by (simp add: distinct_map)
    show "set (snap ranking q) = set (snapshot ranking q)"
      using set1 set2 by simp
  qed
qed

lemma ids_reprioritise: "map block_id (reprioritise sv s) = map block_id (st_pending s)"
  by (simp add: reprioritise_def comp_def)

lemma candidates_conforming:
  assumes "conforming snap" and "distinct (map block_id (st_pending s))"
  shows "candidates snap sv s = candidates snapshot sv s"
proof -
  from assms(2) have "distinct (map block_id (reprioritise sv s))"
    by (simp add: ids_reprioritise)
  from conforming_unique [OF assms(1) this] show ?thesis
    by (simp add: candidates_def)
qed

lemma distinct_placed:
  "distinct (map block_id (st_pending s)) \<Longrightarrow> distinct (map block_id (st_pending (placed sv s b t)))"
proof -
  assume "distinct (map block_id (st_pending s))"
  then have "distinct (map block_id (reprioritise sv s))" by (simp add: ids_reprioritise)
  then show ?thesis by (simp add: placed_def queue_remove_def distinct_map_filter)
qed

lemma run_loop_conforming:
  "conforming snap \<Longrightarrow> distinct (map block_id (st_pending s)) \<Longrightarrow>
   run_loop snap sv we s acc = run_loop snapshot sv we s acc"
proof (induction snap sv we s acc rule: run_loop.induct)
  case (1 snap sv we s acc)
  have c: "candidates snap sv s = candidates snapshot sv s"
    using "1.prems" by (rule candidates_conforming)
  show ?case
  proof (cases "select_next sv we (candidates snapshot sv s) (st_cursor s) (st_last s)")
    case None
    with c show ?thesis by (simp add: run_loop.simps [of snap] run_loop.simps [of snapshot])
  next
    case (Some bt)
    obtain b t where bt: "bt = (b, t)" by (cases bt)
    show ?thesis
    proof (cases "block_id b \<notin> set (map block_id (st_pending s)) \<or> block_duration b = 0")
      case True
      with Some bt c show ?thesis
        by (auto simp add: run_loop.simps [of snap] run_loop.simps [of snapshot])
    next
      case False
      then have mem: "\<not> block_id b \<notin> set (map block_id (st_pending s))"
        and dur: "\<not> block_duration b = 0" by simp_all
      from Some c bt have sel: "select_next sv we (candidates snap sv s) (st_cursor s) (st_last s) = Some (b, t)"
        by simp
      have "run_loop snap sv we (placed sv s b t) (acc @ placement sv s b t)
          = run_loop snapshot sv we (placed sv s b t) (acc @ placement sv s b t)"
        using "1.IH" [OF sel refl mem dur "1.prems"(1) distinct_placed [OF "1.prems"(2)]] .
      with Some c bt mem dur show ?thesis
        by (simp add: run_loop.simps [of snap] run_loop.simps [of snapshot])
    qed
  qed
qed

lemma scheduling_run_conforming:
  "conforming snap \<Longrightarrow> scheduling_run snap sv ws we q = scheduling_run snapshot sv ws we q"
  by (simp add: scheduling_run_def run_loop_conforming)

lemma conforming_snapshot: "conforming snapshot"
  by (simp add: conforming_def snapshot_def)

lemma conforming_snapshot_backwards: "conforming snapshot_backwards"
  by (simp add: conforming_def snapshot_backwards_def)

lemmas scenario_defs =
  demo_services_def clear_sky_def block_A_def block_B_def feasible_until_def
  global_constraints_def demo_sched_args_def

lemmas scheduler_defs =
  scheduling_run_def candidates_def reprioritise_def snapshot_def snapshot_key_def
  span_feasible_def is_feasible_def block_score_def mean_score_def placement_def placed_def
  queue_remove_def

text \<open>The scenario of section 8 of the specification runs as the specification says.\<close>

lemma scenario_run:
  "scheduling_run snapshot demo_services 0 4 [block_A, block_B] =
     Completed [ScheduledBlock 1 0 1, ScheduledBlock 2 1 2, UnallocatedBlock 2 4]"
  by (simp add: scenario_defs scheduler_defs run_loop.simps select_next.simps upto.simps Let_def)

subsection \<open>The site-wide conditions\<close>

lemma candidates_site_wide:
  "site_conditions sv = global_constraints args \<Longrightarrow>
   candidates snap sv s =
     filter (\<lambda>b. passes_site_wide (ephemerides sv) args (block_target b) (st_cursor s))
       (snap block_priority (reprioritise sv s))"
  by (simp add: candidates_def global_constraints_def passes_site_wide_def conj_ac cong: filter_cong)

lemma from_queue_reprioritise:
  "list_all (from_queue q) (st_pending s) \<Longrightarrow> list_all (from_queue q) (reprioritise sv s)"
  by (simp add: reprioritise_def list_all_iff from_queue_def)

lemma from_queue_placed:
  "list_all (from_queue q) (st_pending s) \<Longrightarrow>
   list_all (from_queue q) (st_pending (placed sv s b t))"
  using from_queue_reprioritise [of q s sv]
  by (simp add: placed_def queue_remove_def list_all_iff)

lemma selected_site_wide:
  assumes site: "site_conditions sv = global_constraints args"
    and sel: "select_next sv we (candidates snap sv s) (st_cursor s) (st_last s) = Some (b, t)"
  shows "passes_site_wide (ephemerides sv) args (block_target b) (st_cursor s)"
    and "b \<in> set (snap block_priority (reprioritise sv s))"
proof -
  from select_next_sound [OF sel] have "b \<in> set (candidates snap sv s)" by simp
  with candidates_site_wide [OF site, of snap s]
  show "passes_site_wide (ephemerides sv) args (block_target b) (st_cursor s)"
    and "b \<in> set (snap block_priority (reprioritise sv s))" by simp_all
qed

lemma placement_filtered_before:
  assumes conf: "conforming snap" and site: "site_conditions sv = global_constraints args"
    and dist: "distinct (map block_id (st_pending s))"
    and orig: "list_all (from_queue q) (st_pending s)"
    and ws: "ws \<le> st_cursor s"
    and sel: "select_next sv we (candidates snap sv s) (st_cursor s) (st_last s) = Some (b, t)"
  shows "list_all (filtered_before (ephemerides sv) args q ws) (placement sv s b t)"
proof -
  from select_next_sound [OF sel] have le: "st_cursor s \<le> t" by simp
  note four = selected_site_wide(1) [OF site sel]
  note insnap = selected_site_wide(2) [OF site sel]
  from dist have "distinct (map block_id (reprioritise sv s))" by (simp add: ids_reprioritise)
  with conf have "mset (snap block_priority (reprioritise sv s)) = mset (reprioritise sv s)"
    by (simp add: conforming_def)
  then have "set (snap block_priority (reprioritise sv s)) = set (reprioritise sv s)"
    by (rule mset_eq_setD)
  with insnap from_queue_reprioritise [OF orig, of sv] have "from_queue q b"
    by (simp add: list_all_iff)
  then obtain y where y: "y \<in> set q" "block_id y = block_id b" "block_target y = block_target b"
    by (auto simp add: from_queue_def list_ex_iff)
  from ws le have "st_cursor s \<in> set [ws..t + int (transition_cost sv (st_last s) b)]"
    by simp
  with four y(3)
  have "list_ex (\<lambda>c. passes_site_wide (ephemerides sv) args (block_target y) c)
          [ws..t + int (transition_cost sv (st_last s) b)]"
    unfolding list_ex_iff by auto
  with y(1,2)
  have "filtered_before (ephemerides sv) args q ws
          (ScheduledBlock (block_id b) (t + int (transition_cost sv (st_last s) b))
             (t + int (transition_cost sv (st_last s) b) + int (block_duration b)))"
    unfolding filtered_before_def entry.case list_ex_iff [of _ q] by blast
  then show ?thesis by (simp add: placement_def Let_def filtered_before_def)
qed

lemma run_loop_filtered_before:
  "conforming snap \<Longrightarrow> site_conditions sv = global_constraints args \<Longrightarrow>
   distinct (map block_id (st_pending s)) \<Longrightarrow> list_all (from_queue q) (st_pending s) \<Longrightarrow>
   ws \<le> st_cursor s \<Longrightarrow> list_all (filtered_before (ephemerides sv) args q ws) acc \<Longrightarrow>
   run_loop snap sv we s acc = Completed sched \<Longrightarrow>
   list_all (filtered_before (ephemerides sv) args q ws) sched"
proof (induction snap sv we s acc rule: run_loop.induct)
  case (1 snap sv we s acc)
  show ?case
  proof (cases "select_next sv we (candidates snap sv s) (st_cursor s) (st_last s)")
    case None
    with "1.prems"(7) have "sched = acc @ (if st_cursor s < we
        then [UnallocatedBlock (st_cursor s) we] else [])"
      by (simp add: run_loop.simps)
    with "1.prems"(6) show ?thesis by (simp add: filtered_before_def)
  next
    case (Some bt)
    obtain b t where bt: "bt = (b, t)" by (cases bt)
    from "1.prems"(7) Some bt have mem: "\<not> block_id b \<notin> set (map block_id (st_pending s))"
      and dur: "\<not> block_duration b = 0"
      and rec: "run_loop snap sv we (placed sv s b t) (acc @ placement sv s b t) = Completed sched"
      by (simp_all add: run_loop.simps split: if_splits)
    from Some bt
    have sel: "select_next sv we (candidates snap sv s) (st_cursor s) (st_last s) = Some (b, t)"
      by simp
    from select_next_sound [OF sel] have le: "st_cursor s \<le> t" by simp
    have acc': "list_all (filtered_before (ephemerides sv) args q ws) (acc @ placement sv s b t)"
      using "1.prems"(6) placement_filtered_before [OF "1.prems"(1-5) sel] by simp
    have cur: "ws \<le> st_cursor (placed sv s b t)"
      using "1.prems"(5) le by (simp add: placed_def)
    from "1.IH" [OF Some bt [symmetric] mem dur "1.prems"(1,2) distinct_placed [OF "1.prems"(3)]
        from_queue_placed [OF "1.prems"(4)] cur acc' rec]
    show ?thesis .
  qed
qed

lemma scheduling_run_filtered_before:
  assumes "conforming snap" and "site_conditions sv = global_constraints args"
    and run: "scheduling_run snap sv ws we q = Completed sched"
  shows "list_all (filtered_before (ephemerides sv) args q ws) sched"
proof -
  from run have d: "distinct (map block_id q)"
    and r: "run_loop snap sv we
              \<lparr>st_cursor = ws, st_pending = q, st_last = None, st_accrued = (\<lambda>p. 0)\<rparr> []
            = Completed sched"
    by (simp_all add: scheduling_run_def split: if_splits)
  have o: "list_all (from_queue q) q" by (auto simp add: list_all_iff from_queue_def list_ex_iff)
  from run_loop_filtered_before [OF assms(1,2),
      of "\<lparr>st_cursor = ws, st_pending = q, st_last = None, st_accrued = (\<lambda>p. 0)\<rparr>" q ws "[]" we sched]
    d o r show ?thesis by simp
qed

section \<open>The scheduler of the specification: claims\<close>

text \<open>
  Claim C1: in every schedule that a scheduling run over the window from \<open>window_start\<close>
  to \<open>window_end\<close> completes with, every entry starts before it ends, consecutive entries do
  not overlap (each starts where the one before ended), and the entries, unallocated gaps
  included, cover exactly the window: the first starts at \<open>window_start\<close>, the last ends at
  \<open>window_end\<close>, and the union of their spans is the window. This holds for every
  implementation of the snapshot, every prioritizer and every answer of the services.
\<close>

theorem completed_schedule_tiles_window:
  "scheduling_run snap sv window_start window_end queue = Completed sched \<Longrightarrow>
     list_all (\<lambda>e. entry_start e < entry_end e) sched
   \<and> no_overlap sched
   \<and> tiles window_start window_end sched
   \<and> (\<Union>e\<in>set sched. {entry_start e .. entry_end e}) = {window_start .. window_end}"
proof -
  assume run: "scheduling_run snap sv window_start window_end queue = Completed sched"
  then have t: "tiles window_start window_end sched"
    by (rule scheduling_run_tiles)
  from run have "window_start < window_end"
    by (simp add: scheduling_run_def split: if_splits)
  with t have "sched \<noteq> []" by auto
  with t have "(\<Union>e\<in>set sched. {entry_start e .. entry_end e}) = {window_start .. window_end}"
    by (rule tiles_union)
  with t tiles_positive [OF t] tiles_no_overlap [OF t] show ?thesis by blast
qed

theorem completed_schedule_tiles_window_witness:
  "scheduling_run snapshot demo_services 0 4 [block_A, block_B] =
     Completed [ScheduledBlock 1 0 1, ScheduledBlock 2 1 2, UnallocatedBlock 2 4]
   \<and> list_all (\<lambda>e. entry_start e < entry_end e)
        [ScheduledBlock 1 0 1, ScheduledBlock 2 1 2, UnallocatedBlock 2 4]
   \<and> no_overlap [ScheduledBlock 1 0 1, ScheduledBlock 2 1 2, UnallocatedBlock 2 4]
   \<and> tiles 0 4 [ScheduledBlock 1 0 1, ScheduledBlock 2 1 2, UnallocatedBlock 2 4]
   \<and> (\<Union>e\<in>set [ScheduledBlock 1 0 1, ScheduledBlock 2 1 2, UnallocatedBlock 2 4].
         {entry_start e .. entry_end e}) = {0 .. 4}"
  using completed_schedule_tiles_window [OF scenario_run] scenario_run by blast

text \<open>
  Claim C2: the list of site-wide conditions that \<^verbatim>\<open>schedtel_cli\<close> builds (lines 362 to
  369) holds exactly four conditions: the night condition with the Sun no higher than
  \<^verbatim>\<open>max_altitude\<close>, the minimum elevation, the maximum airmass and the minimum Moon
  separation. In a scheduling run that is given this list, the candidates at each step
  are the blocks of the snapshot that pass these four conditions at the cursor, and no
  others; the block that the Optimizer selects is one of them; and every block that a
  completed run scheduled is a block of the queue that passed the four conditions at a
  cursor between the start of the window and the start of its entry.
\<close>

theorem candidates_pass_four_site_conditions:
  assumes "conforming snap" and "site_conditions sv = global_constraints args"
  shows "mset (site_conditions sv) =
           {#AtNightConstraint (max_altitude args), AltitudeConstraint (elevation args),
             AirmassConstraint (airmass args) False,
             MoonSeparationConstraint (moon_separation args)#}
       \<and> candidates snap sv s =
           filter (\<lambda>b. passes_site_wide (ephemerides sv) args (block_target b) (st_cursor s))
             (snap block_priority (reprioritise sv s))
       \<and> (\<forall>b t. select_next sv we (candidates snap sv s) (st_cursor s) (st_last s) = Some (b, t)
              \<longrightarrow> b \<in> set (snap block_priority (reprioritise sv s))
                \<and> passes_site_wide (ephemerides sv) args (block_target b) (st_cursor s))
       \<and> (\<forall>sched i a z. scheduling_run snap sv ws we q = Completed sched
              \<longrightarrow> ScheduledBlock i a z \<in> set sched
              \<longrightarrow> (\<exists>b c. b \<in> set q \<and> block_id b = i \<and> ws \<le> c \<and> c \<le> a
                     \<and> passes_site_wide (ephemerides sv) args (block_target b) c))"
proof (intro conjI allI impI)
  show "mset (site_conditions sv) =
           {#AtNightConstraint (max_altitude args), AltitudeConstraint (elevation args),
             AirmassConstraint (airmass args) False,
             MoonSeparationConstraint (moon_separation args)#}"
    using assms(2) by (simp add: global_constraints_def)
  show "candidates snap sv s =
           filter (\<lambda>b. passes_site_wide (ephemerides sv) args (block_target b) (st_cursor s))
             (snap block_priority (reprioritise sv s))"
    using assms(2) by (rule candidates_site_wide)
next
  fix b t
  assume sel: "select_next sv we (candidates snap sv s) (st_cursor s) (st_last s) = Some (b, t)"
  show "b \<in> set (snap block_priority (reprioritise sv s))"
    using assms(2) sel by (rule selected_site_wide(2))
  show "passes_site_wide (ephemerides sv) args (block_target b) (st_cursor s)"
    using assms(2) sel by (rule selected_site_wide(1))
next
  fix sched i a z
  assume run: "scheduling_run snap sv ws we q = Completed sched"
    and e: "ScheduledBlock i a z \<in> set sched"
  from scheduling_run_filtered_before [OF assms run] e
  have "filtered_before (ephemerides sv) args q ws (ScheduledBlock i a z)"
    by (simp add: list_all_iff)
  then obtain b c where "b \<in> set q" and "block_id b = i" and "c \<in> set [ws..a]"
    and "passes_site_wide (ephemerides sv) args (block_target b) c"
    unfolding filtered_before_def entry.case list_ex_iff by blast
  then have "b \<in> set q \<and> block_id b = i \<and> ws \<le> c \<and> c \<le> a
               \<and> passes_site_wide (ephemerides sv) args (block_target b) c"
    by simp
  then show "\<exists>b c. b \<in> set q \<and> block_id b = i \<and> ws \<le> c \<and> c \<le> a
                     \<and> passes_site_wide (ephemerides sv) args (block_target b) c"
    by blast
qed

theorem candidates_pass_four_site_conditions_witness:
  "conforming snapshot
   \<and> site_conditions demo_services = global_constraints demo_sched_args
   \<and> candidates snapshot demo_services
        \<lparr>st_cursor = 0, st_pending = [block_A, block_B], st_last = None,
         st_accrued = (\<lambda>p. 0)\<rparr> = [block_A, block_B]
   \<and> scheduling_run snapshot demo_services 0 4 [block_A, block_B] =
       Completed [ScheduledBlock 1 0 1, ScheduledBlock 2 1 2, UnallocatedBlock 2 4]
   \<and> (\<exists>b c. b \<in> set [block_A, block_B] \<and> block_id b = 1 \<and> 0 \<le> c \<and> c \<le> 0
          \<and> passes_site_wide (ephemerides demo_services) demo_sched_args (block_target b) c)"
proof -
  have site: "site_conditions demo_services = global_constraints demo_sched_args"
    by (simp add: demo_services_def)
  note c2 = candidates_pass_four_site_conditions [OF conforming_snapshot site,
      of "\<lparr>st_cursor = 0, st_pending = [block_A, block_B], st_last = None,
           st_accrued = (\<lambda>p. 0)\<rparr>" 4 0 "[block_A, block_B]"]
  have cands: "candidates snapshot demo_services
        \<lparr>st_cursor = 0, st_pending = [block_A, block_B], st_last = None,
         st_accrued = (\<lambda>p. 0)\<rparr> = [block_A, block_B]"
    by (simp add: scenario_defs scheduler_defs)
  have "ScheduledBlock 1 0 1
          \<in> set [ScheduledBlock 1 0 1, ScheduledBlock 2 1 2, UnallocatedBlock 2 4]"
    by simp
  with c2 [THEN conjunct2, THEN conjunct2, THEN conjunct2, rule_format, OF scenario_run]
  have ex: "\<exists>b c. b \<in> set [block_A, block_B] \<and> block_id b = 1 \<and> 0 \<le> c \<and> c \<le> 0
          \<and> passes_site_wide (ephemerides demo_services) demo_sched_args (block_target b) c" .
  show ?thesis
    by (intro conjI) (rule conforming_snapshot site cands scenario_run ex)+
qed

text \<open>
  Claim C3: scheduling is deterministic. The schedule is a function of the queue, the
  window and the answers of the services; what an implementation could still choose is
  how it orders the snapshot, and the order of section 4.4 (ranking, then earliest lower
  bound, then insertion order) leaves no choice: two runs on the same inputs, each with
  any implementation of the snapshot that returns the queue's blocks in that order, end
  with the same result, schedule and all.
\<close>

theorem scheduling_run_deterministic:
  "conforming snap \<Longrightarrow> conforming snap' \<Longrightarrow>
   scheduling_run snap sv window_start window_end queue
     = scheduling_run snap' sv window_start window_end queue"
  by (simp add: scheduling_run_conforming [of snap] scheduling_run_conforming [of snap'])

theorem scheduling_run_deterministic_witness:
  "conforming snapshot \<and> conforming snapshot_backwards
   \<and> scheduling_run snapshot demo_services 0 4 [block_A, block_B]
       = scheduling_run snapshot_backwards demo_services 0 4 [block_A, block_B]
   \<and> scheduling_run snapshot_backwards demo_services 0 4 [block_A, block_B]
       = Completed [ScheduledBlock 1 0 1, ScheduledBlock 2 1 2, UnallocatedBlock 2 4]"
  using scheduling_run_deterministic [OF conforming_snapshot conforming_snapshot_backwards,
      of demo_services 0 4 "[block_A, block_B]"]
    conforming_snapshot conforming_snapshot_backwards scenario_run
  by simp

end
